theory Spec2Isabelle
  imports Main "HOL-Library.Word"
begin

unbundle bit_operations_syntax

section \<open>Host values\<close>

text \<open>
  A \<open>v8::String\<close> is a sequence of UTF-16 code units; it may contain NUL and lone
  surrogates. A \<open>char*\<close> handed to libc is a byte string, a \<open>WCHAR*\<close> handed to
  Win32 a sequence of 16-bit units; both end at the first NUL.
\<close>

type_synonym wchar = "16 word"
type_synonym js_string = "wchar list"
type_synonym wstring = "wchar list"

datatype js_value =
    JSUndefined
  | JSBoolean bool
  | JSNumber int
  | JSString js_string
  | JSSymbol nat
  | JSObject nat

fun IsString :: "js_value \<Rightarrow> bool" where
  "IsString (JSString s) = True"
| "IsString v = False"

fun IsSymbol :: "js_value \<Rightarrow> bool" where
  "IsSymbol (JSSymbol n) = True"
| "IsSymbol v = False"

fun IsNumber :: "js_value \<Rightarrow> bool" where
  "IsNumber (JSNumber n) = True"
| "IsNumber v = False"

fun IsBoolean :: "js_value \<Rightarrow> bool" where
  "IsBoolean (JSBoolean b) = True"
| "IsBoolean v = False"

text \<open>\<open>property.As<String>()\<close>: the cast is only used after \<open>IsString\<close> held.\<close>

fun As_String :: "js_value \<Rightarrow> js_string" where
  "As_String (JSString s) = s"
| "As_String v = []"

text \<open>
  How a call can end: the process is terminated (\<open>CHECK\<close>, \<open>ToLocalChecked\<close> on an
  empty handle), an exception is left pending on the isolate, or the call returns.
\<close>

datatype fatal = CHECK_failed | ToLocalChecked_empty

datatype error = ERR_STRING_TOO_LONG

datatype 'a outcome = Fatal fatal | Threw error | Returned 'a

text \<open>
  The isolate stands for the V8 entry points the store calls. The UTF-8 transcoding of
  \<open>node::Utf8Value\<close> and \<open>String::NewFromUtf8\<close> and the conversion behind
  \<open>Value::ToString\<close> for values that are neither strings nor symbols are parameters;
  \<open>kMaxLength\<close> is V8's limit on the length of a string.
\<close>

record isolate =
  Utf8Value :: "js_string \<Rightarrow> string"
  NewFromUtf8 :: "string \<Rightarrow> js_string option"
  kMaxLength :: nat
  ToString_other :: "js_value \<Rightarrow> js_string option"

text \<open>\<open>String::NewFromTwoByte\<close> copies the code units; it yields an empty handle when
  the string would be longer than V8 allows.\<close>

definition NewFromTwoByte :: "isolate \<Rightarrow> wstring \<Rightarrow> js_string option" where
  "NewFromTwoByte isol s = (if length s \<le> kMaxLength isol then Some s else None)"

text \<open>Modelled from the spec: \<open>node::TwoByteValue\<close> (declared in util.h) is the
  native form of a string on the UTF-16 platform, where keys and values are UTF-16
  code-unit sequences: the buffer holds the code units of the string.\<close>

definition TwoByteValue :: "isolate \<Rightarrow> js_string \<Rightarrow> wstring" where
  "TwoByteValue isol s = s"

text \<open>\<open>Value::ToString\<close>: a string is itself, a symbol cannot be converted (a
  TypeError is thrown and the handle is empty), anything else is up to the isolate.\<close>

fun ToString :: "isolate \<Rightarrow> js_value \<Rightarrow> js_string option" where
  "ToString isol (JSString s) = Some s"
| "ToString isol (JSSymbol n) = None"
| "ToString isol v = ToString_other isol v"

text \<open>What a reader of a NUL-terminated buffer sees of its contents.\<close>

definition c_str :: "string \<Rightarrow> string" where
  "c_str s = takeWhile (\<lambda>c. c \<noteq> CHR 0x00) s"

definition w_str :: "wstring \<Rightarrow> wstring" where
  "w_str s = takeWhile (\<lambda>c. c \<noteq> 0) s"

section \<open>The byte-string platform: libc\<close>

text \<open>
  \<open>environ\<close> is an array of records \<open>NAME=value\<close>. The three libc calls follow
  POSIX where it speaks (\<open>setenv\<close> and \<open>unsetenv\<close> fail with EINVAL, changing
  nothing, on an empty name or one containing \<open>=\<close>) and glibc where it does not
  (\<open>getenv\<close> returns the text after \<open>name=\<close> of the first record that begins so;
  \<open>setenv\<close> overwrites the first such record or appends one; \<open>unsetenv\<close> removes
  every such record). Running out of memory is not modelled.
\<close>

type_synonym environ = "string list"

definition env_match :: "string \<Rightarrow> string \<Rightarrow> bool" where
  "env_match name e = (take (length name + 1) e = name @ ''='')"

fun getenv_scan :: "environ \<Rightarrow> string \<Rightarrow> string option" where
  "getenv_scan [] name = None"
| "getenv_scan (e # es) name =
     (if env_match name e then Some (drop (length name + 1) e) else getenv_scan es name)"

definition getenv :: "environ \<Rightarrow> string \<Rightarrow> string option" where
  "getenv env name = (if name = [] then None else getenv_scan env name)"

definition EINVAL_name :: "string \<Rightarrow> bool" where
  "EINVAL_name name = (name = [] \<or> CHR ''='' \<in> set name)"

fun add_to_environ :: "environ \<Rightarrow> string \<Rightarrow> string \<Rightarrow> environ" where
  "add_to_environ [] name val = [name @ ''='' @ val]"
| "add_to_environ (e # es) name val =
     (if env_match name e then (name @ ''='' @ val) # es
      else e # add_to_environ es name val)"

definition setenv :: "environ \<Rightarrow> string \<Rightarrow> string \<Rightarrow> int \<Rightarrow> int \<times> environ" where
  "setenv env name val overwrite =
     (if EINVAL_name name then (- 1, env)
      else if overwrite = 0 \<and> getenv env name \<noteq> None then (0, env)
      else (0, add_to_environ env name val))"

definition unsetenv :: "environ \<Rightarrow> string \<Rightarrow> int \<times> environ" where
  "unsetenv env name =
     (if EINVAL_name name then (- 1, env)
      else (0, filter (\<lambda>e. \<not> env_match name e) env))"

text \<open>\<open>strchr(var, c)\<close> as the offset of the first \<open>c\<close>, if there is one.\<close>

definition strchr :: "string \<Rightarrow> char \<Rightarrow> nat option" where
  "strchr var c = (if c \<in> set var then Some (length (takeWhile (\<lambda>x. x \<noteq> c) var)) else None)"

section \<open>RealEnvStore on the byte-string platform\<close>

text \<open>The store has no state of its own: every operation takes the environment block
  and, when it changes it, returns the new one. The process-wide mutex makes each
  operation atomic, which is what a function of the block is.\<close>

definition RealEnvStore_Get_posix :: "isolate \<Rightarrow> environ \<Rightarrow> js_string \<Rightarrow> js_string option outcome" where
  "RealEnvStore_Get_posix isol env property =
     (let key = c_str (Utf8Value isol property) in
      case getenv env key of
        Some val \<Rightarrow>
          (case NewFromUtf8 isol val of
             None \<Rightarrow> Fatal ToLocalChecked_empty
           | Some s \<Rightarrow> Returned (Some s))
      | None \<Rightarrow> Returned None)"

definition RealEnvStore_Set_posix :: "isolate \<Rightarrow> environ \<Rightarrow> js_string \<Rightarrow> js_string \<Rightarrow> environ" where
  "RealEnvStore_Set_posix isol env property val =
     (let key = c_str (Utf8Value isol property);
          v = c_str (Utf8Value isol val)
      in snd (setenv env key v 1))"

definition RealEnvStore_Query_posix :: "isolate \<Rightarrow> environ \<Rightarrow> js_string \<Rightarrow> int" where
  "RealEnvStore_Query_posix isol env property =
     (let key = c_str (Utf8Value isol property) in
      if getenv env key \<noteq> None then 0 else - 1)"

definition RealEnvStore_Delete_posix :: "isolate \<Rightarrow> environ \<Rightarrow> js_string \<Rightarrow> environ" where
  "RealEnvStore_Delete_posix isol env property =
     (let key = c_str (Utf8Value isol property) in snd (unsetenv env key))"

fun Enumerate_loop_posix :: "isolate \<Rightarrow> environ \<Rightarrow> js_string list outcome" where
  "Enumerate_loop_posix isol [] = Returned []"
| "Enumerate_loop_posix isol (var # rest) =
     (let len = (case strchr var (CHR ''='') of Some i \<Rightarrow> i | None \<Rightarrow> length var) in
      case NewFromUtf8 isol (take len var) of
        None \<Rightarrow> Fatal ToLocalChecked_empty
      | Some k \<Rightarrow>
          (case Enumerate_loop_posix isol rest of
             Returned ks \<Rightarrow> Returned (k # ks)
           | Threw e \<Rightarrow> Threw e
           | Fatal f \<Rightarrow> Fatal f))"

definition RealEnvStore_Enumerate_posix :: "isolate \<Rightarrow> environ \<Rightarrow> js_string list outcome" where
  "RealEnvStore_Enumerate_posix isol env = Enumerate_loop_posix isol env"

section \<open>The UTF-16 platform: Win32\<close>

text \<open>
  The block returned by \<open>GetEnvironmentStringsW\<close> is a sequence of NUL-terminated
  records \<open>NAME=value\<close> closed by an empty one; it is kept as the list of its records
  (the text between the terminators, so a record holds no NUL). The name of a record
  runs to the first \<open>=\<close> after its first character, which lets the records the
  system keeps for the current directory of each drive (\<open>=C:=C:\\dir\<close>) have names
  that begin with \<open>=\<close>. Names are compared after \<open>upcase\<close>, the case folding of
  the platform, which is a parameter. \<open>SetEnvironmentVariableW\<close> refuses an empty
  name and one with \<open>=\<close> after its first character; it replaces the value of the
  first record of that name or appends a record, and with a null value it removes the
  records of that name. Running out of memory is not modelled.
\<close>

type_synonym wenviron = "wstring list"

abbreviation L_EQ :: wchar where
  "L_EQ \<equiv> 0x3D"

definition ERROR_SUCCESS :: nat where
  "ERROR_SUCCESS = 0"

definition ERROR_ENVVAR_NOT_FOUND :: nat where
  "ERROR_ENVVAR_NOT_FOUND = 203"

fun record_name :: "wstring \<Rightarrow> wstring" where
  "record_name [] = []"
| "record_name (c # cs) = c # takeWhile (\<lambda>x. x \<noteq> L_EQ) cs"

definition record_value :: "wstring \<Rightarrow> wstring" where
  "record_value r = drop (length (record_name r) + 1) r"

definition same_name :: "(wchar \<Rightarrow> wchar) \<Rightarrow> wstring \<Rightarrow> wstring \<Rightarrow> bool" where
  "same_name upcase a b = (map upcase a = map upcase b)"

fun find_variable :: "(wchar \<Rightarrow> wchar) \<Rightarrow> wenviron \<Rightarrow> wstring \<Rightarrow> wstring option" where
  "find_variable upcase [] name = None"
| "find_variable upcase (r # rs) name =
     (if same_name upcase (record_name r) name then Some (record_value r)
      else find_variable upcase rs name)"

text \<open>
  \<open>GetEnvironmentVariableW(name, buffer, nSize)\<close> with the thread's last error as it
  is before the call: the returned count, the last error after the call, and the
  buffer when it was filled. A variable that is not there gives 0 and sets the last
  error; a value that fits gives its length (terminator not counted) and the value; one
  that does not fit gives the size needed (terminator counted) and fills nothing.
\<close>

definition GetEnvironmentVariableW ::
  "(wchar \<Rightarrow> wchar) \<Rightarrow> wenviron \<Rightarrow> wstring \<Rightarrow> nat \<Rightarrow> nat \<Rightarrow> nat \<times> nat \<times> wstring option" where
  "GetEnvironmentVariableW upcase env name nSize last_error =
     (case find_variable upcase env name of
        None \<Rightarrow> (0, ERROR_ENVVAR_NOT_FOUND, None)
      | Some v \<Rightarrow>
          if length v < nSize then (length v, last_error, Some v)
          else (length v + 1, last_error, None))"

definition valid_wname :: "wstring \<Rightarrow> bool" where
  "valid_wname name = (name \<noteq> [] \<and> L_EQ \<notin> set (tl name))"

fun set_variable :: "(wchar \<Rightarrow> wchar) \<Rightarrow> wenviron \<Rightarrow> wstring \<Rightarrow> wstring \<Rightarrow> wenviron" where
  "set_variable upcase [] name v = [name @ [L_EQ] @ v]"
| "set_variable upcase (r # rs) name v =
     (if same_name upcase (record_name r) name then (record_name r @ [L_EQ] @ v) # rs
      else r # set_variable upcase rs name v)"

definition SetEnvironmentVariableW ::
  "(wchar \<Rightarrow> wchar) \<Rightarrow> wenviron \<Rightarrow> wstring \<Rightarrow> wstring option \<Rightarrow> bool \<times> wenviron" where
  "SetEnvironmentVariableW upcase env name val =
     (if \<not> valid_wname name then (False, env)
      else case val of
        None \<Rightarrow> (True, filter (\<lambda>r. \<not> same_name upcase (record_name r) name) env)
      | Some v \<Rightarrow> (True, set_variable upcase env name v))"

definition GetEnvironmentStringsW :: "wenviron \<Rightarrow> wstring list option" where
  "GetEnvironmentStringsW env = Some env"

text \<open>\<open>wcschr(p, c)\<close> as the offset of the first \<open>c\<close>, if there is one.\<close>

definition wcschr :: "wstring \<Rightarrow> wchar \<Rightarrow> nat option" where
  "wcschr p c = (if c \<in> set p then Some (length (takeWhile (\<lambda>x. x \<noteq> c) p)) else None)"

text \<open>\<open>key_ptr[0] == L'='\<close>: the first unit of an empty string is its terminator.\<close>

fun first_is_EQ :: "wstring \<Rightarrow> bool" where
  "first_is_EQ [] = False"
| "first_is_EQ (c # cs) = (c = L_EQ)"

section \<open>RealEnvStore on the UTF-16 platform\<close>

definition arraysize_buffer :: nat where
  "arraysize_buffer = 32767"

text \<open>\<open>v8::PropertyAttribute\<close>.\<close>

definition ReadOnly :: int where
  "ReadOnly = 1"

definition DontEnum :: int where
  "DontEnum = 2"

definition DontDelete :: int where
  "DontDelete = 4"

definition RealEnvStore_Get_win32 ::
  "(wchar \<Rightarrow> wchar) \<Rightarrow> isolate \<Rightarrow> wenviron \<Rightarrow> js_string \<Rightarrow> js_string option outcome" where
  "RealEnvStore_Get_win32 upcase isol env property =
     (let key = w_str (TwoByteValue isol property);
          (result, last_error, buffer) =
             GetEnvironmentVariableW upcase env key arraysize_buffer ERROR_SUCCESS
      in if (result > 0 \<or> last_error = ERROR_SUCCESS) \<and> result < arraysize_buffer then
           (case buffer of
              None \<Rightarrow> Returned None
            | Some two_byte_buffer \<Rightarrow>
                (case NewFromTwoByte isol two_byte_buffer of
                   None \<Rightarrow> Threw ERR_STRING_TOO_LONG
                 | Some rc \<Rightarrow> Returned (Some rc)))
         else Returned None)"

definition RealEnvStore_Set_win32 ::
  "(wchar \<Rightarrow> wchar) \<Rightarrow> isolate \<Rightarrow> wenviron \<Rightarrow> js_string \<Rightarrow> js_string \<Rightarrow> wenviron" where
  "RealEnvStore_Set_win32 upcase isol env property val =
     (let key_ptr = w_str (TwoByteValue isol property);
          v = w_str (TwoByteValue isol val)
      in if \<not> first_is_EQ key_ptr
         then snd (SetEnvironmentVariableW upcase env key_ptr (Some v))
         else env)"

definition RealEnvStore_Query_win32 ::
  "(wchar \<Rightarrow> wchar) \<Rightarrow> isolate \<Rightarrow> wenviron \<Rightarrow> js_string \<Rightarrow> int" where
  "RealEnvStore_Query_win32 upcase isol env property =
     (let key_ptr = w_str (TwoByteValue isol property);
          (result, last_error, buffer) =
             GetEnvironmentVariableW upcase env key_ptr 0 ERROR_SUCCESS
      in if result > 0 \<or> last_error = ERROR_SUCCESS then
           (if first_is_EQ key_ptr then ReadOnly OR DontDelete OR DontEnum else 0)
         else - 1)"

definition RealEnvStore_Delete_win32 ::
  "(wchar \<Rightarrow> wchar) \<Rightarrow> isolate \<Rightarrow> wenviron \<Rightarrow> js_string \<Rightarrow> wenviron" where
  "RealEnvStore_Delete_win32 upcase isol env property =
     (let key_ptr = w_str (TwoByteValue isol property)
      in snd (SetEnvironmentVariableW upcase env key_ptr None))"

text \<open>The walk over the block: \<open>p\<close> is the record under the pointer, \<open>env_v\<close> the
  keys pushed so far. The walk ends at the closing empty record.\<close>

fun Enumerate_loop_win32 :: "isolate \<Rightarrow> wstring list \<Rightarrow> js_string list \<Rightarrow> js_string list outcome" where
  "Enumerate_loop_win32 isol [] env_v = Returned env_v"
| "Enumerate_loop_win32 isol (p # rest) env_v =
     (if p = [] then Returned env_v
      else if first_is_EQ p then Enumerate_loop_win32 isol rest env_v
      else
        (let two_byte_buffer_len = (case wcschr p L_EQ of Some i \<Rightarrow> i | None \<Rightarrow> length p) in
         case NewFromTwoByte isol (take two_byte_buffer_len p) of
           None \<Rightarrow> Threw ERR_STRING_TOO_LONG
         | Some rc \<Rightarrow> Enumerate_loop_win32 isol rest (env_v @ [rc])))"

definition RealEnvStore_Enumerate_win32 :: "isolate \<Rightarrow> wenviron \<Rightarrow> js_string list outcome" where
  "RealEnvStore_Enumerate_win32 isol env =
     (case GetEnvironmentStringsW env of
        None \<Rightarrow> Returned []
      | Some environment \<Rightarrow> Enumerate_loop_win32 isol environment [])"

section \<open>The store interface and the property interceptors\<close>

text \<open>\<open>KVStore\<close> is the abstract class the interceptors call through
  \<open>env->envvars()\<close>; \<open>'s\<close> is the state the store works on.\<close>

record 's KVStore =
  kv_Get :: "'s \<Rightarrow> js_string \<Rightarrow> js_string option outcome"
  kv_Set :: "'s \<Rightarrow> js_string \<Rightarrow> js_string \<Rightarrow> 's"
  kv_Query :: "'s \<Rightarrow> js_string \<Rightarrow> int"
  kv_Delete :: "'s \<Rightarrow> js_string \<Rightarrow> 's"
  kv_Enumerate :: "'s \<Rightarrow> js_string list outcome"

definition RealEnvStore_posix :: "isolate \<Rightarrow> environ KVStore" where
  "RealEnvStore_posix isol =
     \<lparr> kv_Get = RealEnvStore_Get_posix isol,
       kv_Set = RealEnvStore_Set_posix isol,
       kv_Query = RealEnvStore_Query_posix isol,
       kv_Delete = RealEnvStore_Delete_posix isol,
       kv_Enumerate = RealEnvStore_Enumerate_posix isol \<rparr>"

definition RealEnvStore_win32 :: "(wchar \<Rightarrow> wchar) \<Rightarrow> isolate \<Rightarrow> wenviron KVStore" where
  "RealEnvStore_win32 upcase isol =
     \<lparr> kv_Get = RealEnvStore_Get_win32 upcase isol,
       kv_Set = RealEnvStore_Set_win32 upcase isol,
       kv_Query = RealEnvStore_Query_win32 upcase isol,
       kv_Delete = RealEnvStore_Delete_win32 upcase isol,
       kv_Enumerate = RealEnvStore_Enumerate_win32 isol \<rparr>"

text \<open>
  The \<open>Environment\<close> of the calling context, as far as the interceptors use it: the
  option \<open>pending_deprecation\<close>, the flag read and cleared by
  \<open>EmitProcessEnvWarning\<close>, and the state of the store behind \<open>envvars()\<close>.
  \<open>warnings\<close> lists the calls made to the deprecation-notification collaborator
  (message and code), latest first.
\<close>

record 's Environment =
  pending_deprecation :: bool
  emit_env_nonstring_warning :: bool
  envvars :: 's
  warnings :: "(string \<times> string) list"

text \<open>Modelled from the spec: \<open>Environment::EmitProcessEnvWarning\<close> (declared with
  the \<open>Environment\<close> class) is the one-time warning state, a single boolean flag
  owned by the calling context, set on first emission and checked before each
  subsequent write; as the comment in \<open>EnvSetter\<close> says, calling it sets a variable
  indicating that warnings have been emitted. It answers whether this is the first call
  and records that a call was made.\<close>

definition EmitProcessEnvWarning :: "'s Environment \<Rightarrow> bool \<times> 's Environment" where
  "EmitProcessEnvWarning env =
     (emit_env_nonstring_warning env, env\<lparr>emit_env_nonstring_warning := False\<rparr>)"

definition DEP0104_message :: string where
  "DEP0104_message =
     ''Assigning any value other than a string, number, or boolean to a '' @
     ''process.env property is deprecated. Please make sure to convert '' @
     ''the '' @
     ''value to a string before setting process.env with it.''"

text \<open>\<open>ProcessEmitDeprecationWarning\<close> is the collaborator: \<open>emit\<close> is its answer
  for a message and a code, \<open>None\<close> when it signals failure. The call is recorded.\<close>

definition ProcessEmitDeprecationWarning ::
  "(string \<Rightarrow> string \<Rightarrow> bool option) \<Rightarrow> 's Environment \<Rightarrow> string \<Rightarrow> string
     \<Rightarrow> bool option \<times> 's Environment" where
  "ProcessEmitDeprecationWarning emit env msg code =
     (emit msg code, env\<lparr>warnings := (msg, code) # warnings env\<rparr>)"

text \<open>An interceptor leaves the return value of the callback set or unset
  (\<open>Some\<close> or \<open>None\<close>); \<open>ReturnValue::Set\<close> with an empty handle leaves it
  unset.\<close>

definition EnvGetter :: "'s KVStore \<Rightarrow> 's Environment \<Rightarrow> js_value \<Rightarrow> js_value option outcome" where
  "EnvGetter kv env property =
     (if IsSymbol property then Returned (Some JSUndefined)
      else if \<not> IsString property then Fatal CHECK_failed
      else
        (case kv_Get kv (envvars env) (As_String property) of
           Returned r \<Rightarrow> Returned (map_option JSString r)
         | Threw e \<Rightarrow> Threw e
         | Fatal f \<Rightarrow> Fatal f))"

definition EnvSetter ::
  "isolate \<Rightarrow> (string \<Rightarrow> string \<Rightarrow> bool option) \<Rightarrow> 's KVStore \<Rightarrow> 's Environment
     \<Rightarrow> js_value \<Rightarrow> js_value \<Rightarrow> js_value option \<times> 's Environment" where
  "EnvSetter isol emit kv env property val =
     (let (warn, env1) =
            (if pending_deprecation env \<and> \<not> IsString val \<and>
                \<not> IsNumber val \<and> \<not> IsBoolean val
             then EmitProcessEnvWarning env else (False, env));
          (failed, env2) =
            (if warn then
               (case ProcessEmitDeprecationWarning emit env1 DEP0104_message ''DEP0104'' of
                  (None, e) \<Rightarrow> (True, e)
                | (Some b, e) \<Rightarrow> (False, e))
             else (False, env1))
      in if failed then (None, env2)
         else
           (case ToString isol property of
              None \<Rightarrow> (None, env2)
            | Some key \<Rightarrow>
                (case ToString isol val of
                   None \<Rightarrow> (None, env2)
                 | Some value_string \<Rightarrow>
                     (Some val, env2\<lparr>envvars := kv_Set kv (envvars env2) key value_string\<rparr>))))"

definition EnvQuery :: "'s KVStore \<Rightarrow> 's Environment \<Rightarrow> js_value \<Rightarrow> int option" where
  "EnvQuery kv env property =
     (if IsString property then
        (let rc = kv_Query kv (envvars env) (As_String property) in
         if rc \<noteq> - 1 then Some rc else None)
      else None)"

definition EnvDeleter :: "'s KVStore \<Rightarrow> 's Environment \<Rightarrow> js_value \<Rightarrow> bool option \<times> 's Environment" where
  "EnvDeleter kv env property =
     (let env1 = (if IsString property
                  then env\<lparr>envvars := kv_Delete kv (envvars env) (As_String property)\<rparr>
                  else env)
      in (Some True, env1))"

definition EnvEnumerator :: "'s KVStore \<Rightarrow> 's Environment \<Rightarrow> js_string list outcome" where
  "EnvEnumerator kv env = kv_Enumerate kv (envvars env)"

text \<open>A run of writes through \<open>EnvSetter\<close> in one calling context.\<close>

fun EnvSetter_run ::
  "isolate \<Rightarrow> (string \<Rightarrow> string \<Rightarrow> bool option) \<Rightarrow> 's KVStore \<Rightarrow> 's Environment
     \<Rightarrow> (js_value \<times> js_value) list \<Rightarrow> 's Environment" where
  "EnvSetter_run isol emit kv env [] = env"
| "EnvSetter_run isol emit kv env ((property, val) # ws) =
     EnvSetter_run isol emit kv (snd (EnvSetter isol emit kv env property val)) ws"

text \<open>The key of a raw record in the words of the specification: the record is split
  at the first separator, and a record without a separator is a key in its entirety.\<close>

definition key_of_record :: "'a \<Rightarrow> 'a list \<Rightarrow> 'a list" where
  "key_of_record sep r = takeWhile (\<lambda>c. c \<noteq> sep) r"

text \<open>An isolate to evaluate the model on ASCII text, where UTF-8 has one byte for each
  code unit, of the same number. Numbers are written in decimal.\<close>

fun decimal :: "nat \<Rightarrow> js_string" where
  "decimal n = (if n < 10 then [of_nat (48 + n)] else decimal (n div 10) @ [of_nat (48 + n mod 10)])"

definition js_of_ascii :: "string \<Rightarrow> js_string" where
  "js_of_ascii s = map (\<lambda>c. of_nat (of_char c)) s"

fun ascii_ToString :: "js_value \<Rightarrow> js_string option" where
  "ascii_ToString JSUndefined = Some (js_of_ascii ''undefined'')"
| "ascii_ToString (JSBoolean b) = Some (js_of_ascii (if b then ''true'' else ''false''))"
| "ascii_ToString (JSNumber n) =
     Some (if n < 0 then js_of_ascii ''-'' @ decimal (nat (- n)) else decimal (nat n))"
| "ascii_ToString (JSObject n) = Some (js_of_ascii ''[object Object]'')"
| "ascii_ToString v = None"

definition ascii_isolate :: isolate where
  "ascii_isolate =
     \<lparr> Utf8Value = map (\<lambda>w. char_of (unat w)),
       NewFromUtf8 = (\<lambda>s. Some (js_of_ascii s)),
       kMaxLength = 1073741799,
       ToString_other = ascii_ToString \<rparr>"

section \<open>Facts about the platform calls\<close>

lemma env_match_self: "env_match name (name @ ''='' @ val)"
  by (simp add: env_match_def)

lemma getenv_scan_add_to_environ:
  "getenv_scan (add_to_environ env name val) name = Some val"
  by (induction env) (simp_all add: env_match_def)

lemma getenv_scan_unset:
  "getenv_scan (filter (\<lambda>e. \<not> env_match name e) env) name = None"
  by (induction env) simp_all

lemma getenv_scan_None_iff:
  "getenv_scan env name = None \<longleftrightarrow> (\<forall>e \<in> set env. \<not> env_match name e)"
  by (induction env) simp_all

lemma record_name_build:
  "valid_wname name \<Longrightarrow> record_name (name @ L_EQ # v) = name"
  by (cases name) (simp_all add: valid_wname_def takeWhile_append)

lemma valid_wname_record_name: "r \<noteq> [] \<Longrightarrow> valid_wname (record_name r)"
  by (cases r) (auto simp: valid_wname_def dest: set_takeWhileD)

lemma record_value_build:
  "valid_wname name \<Longrightarrow> record_value (name @ L_EQ # v) = v"
  by (simp add: record_value_def record_name_build)

lemma same_name_nonempty:
  "same_name upcase (record_name a) name \<Longrightarrow> valid_wname name \<Longrightarrow> a \<noteq> []"
  by (auto simp: same_name_def valid_wname_def)

lemma find_variable_set_variable:
  "valid_wname name \<Longrightarrow>
   find_variable upcase (set_variable upcase env name v) name = Some v"
proof (induction env)
  case Nil
  then show ?case
    by (simp add: record_name_build record_value_build same_name_def)
next
  case (Cons a env)
  show ?case
  proof (cases "same_name upcase (record_name a) name")
    case True
    with Cons.prems have "a \<noteq> []" by (auto dest: same_name_nonempty)
    then have v: "valid_wname (record_name a)" by (rule valid_wname_record_name)
    from True v show ?thesis
      by (simp add: record_name_build record_value_build)
  next
    case False
    with Cons show ?thesis by simp
  qed
qed

lemma find_variable_filter:
  "find_variable upcase (filter (\<lambda>r. \<not> same_name upcase (record_name r) name) env) name = None"
  by (induction env) simp_all

lemma find_variable_None_iff:
  "find_variable upcase env name = None \<longleftrightarrow>
   (\<forall>r \<in> set env. \<not> same_name upcase (record_name r) name)"
  by (induction env) simp_all


lemmas ascii_eval = ascii_isolate_def js_of_ascii_def char_of_def bit_Suc_0_iff

lemmas posix_eval = RealEnvStore_Get_posix_def RealEnvStore_Set_posix_def
  RealEnvStore_Query_posix_def RealEnvStore_Delete_posix_def RealEnvStore_Enumerate_posix_def
  c_str_def getenv_def setenv_def unsetenv_def EINVAL_name_def env_match_def strchr_def

lemmas win32_eval = RealEnvStore_Get_win32_def RealEnvStore_Set_win32_def
  RealEnvStore_Query_win32_def RealEnvStore_Delete_win32_def RealEnvStore_Enumerate_win32_def
  w_str_def TwoByteValue_def NewFromTwoByte_def GetEnvironmentVariableW_def
  SetEnvironmentVariableW_def GetEnvironmentStringsW_def valid_wname_def same_name_def
  record_value_def wcschr_def ERROR_SUCCESS_def ERROR_ENVVAR_NOT_FOUND_def
  arraysize_buffer_def ReadOnly_def DontEnum_def DontDelete_def

section \<open>Set followed by Get\<close>

lemma Get_posix_after_Set:
  assumes "\<not> EINVAL_name (c_str (Utf8Value isol k))"
    and "NewFromUtf8 isol (c_str (Utf8Value isol v)) = Some v"
  shows "RealEnvStore_Get_posix isol (RealEnvStore_Set_posix isol env k v) k = Returned (Some v)"
proof -
  let ?key = "c_str (Utf8Value isol k)" and ?val = "c_str (Utf8Value isol v)"
  from assms(1) have ne: "?key \<noteq> []" by (simp add: EINVAL_name_def)
  from assms(1) have "RealEnvStore_Set_posix isol env k v = add_to_environ env ?key ?val"
    by (simp add: RealEnvStore_Set_posix_def setenv_def)
  moreover from ne have "getenv (add_to_environ env ?key ?val) ?key = Some ?val"
    by (simp add: getenv_def getenv_scan_add_to_environ)
  ultimately show ?thesis
    using assms(2) by (simp add: RealEnvStore_Get_posix_def)
qed

lemma Get_win32_found:
  assumes "find_variable upcase env (w_str k) = Some v"
  shows "RealEnvStore_Get_win32 upcase isol env k =
     (if length v < arraysize_buffer
      then (if length v \<le> kMaxLength isol then Returned (Some v) else Threw ERR_STRING_TOO_LONG)
      else Returned None)"
  using assms
  by (simp add: RealEnvStore_Get_win32_def TwoByteValue_def GetEnvironmentVariableW_def
      NewFromTwoByte_def ERROR_SUCCESS_def)

lemma Get_win32_not_found:
  assumes "find_variable upcase env (w_str k) = None"
  shows "RealEnvStore_Get_win32 upcase isol env k = Returned None"
  using assms
  by (simp add: RealEnvStore_Get_win32_def TwoByteValue_def GetEnvironmentVariableW_def
      ERROR_SUCCESS_def ERROR_ENVVAR_NOT_FOUND_def)

lemma Set_win32_valid:
  assumes "valid_wname (w_str k)" and "\<not> first_is_EQ (w_str k)"
  shows "RealEnvStore_Set_win32 upcase isol env k v = set_variable upcase env (w_str k) (w_str v)"
  using assms by (simp add: RealEnvStore_Set_win32_def TwoByteValue_def SetEnvironmentVariableW_def)

text \<open>
  C1 (as amended). Set(k, v) followed by Get(k) returns exactly v for every key whose
  native form the platform accepts as a name and every value that survives the way into
  the block and back. On the byte-string platform: the NUL-terminated UTF-8 form of k is
  neither empty nor contains \<open>=\<close>, and decoding the NUL-terminated UTF-8 form of v gives
  v. On the UTF-16 platform: k up to its first NUL is not empty and contains no \<open>=\<close>
  (not in first place, where the store itself refuses the write, nor later, where the
  platform does), and v has no NUL and fewer than 32767 code units.
\<close>

theorem Set_then_Get_returns_value:
  "(\<not> EINVAL_name (c_str (Utf8Value isol k)) \<and>
    NewFromUtf8 isol (c_str (Utf8Value isol v)) = Some v \<longrightarrow>
      RealEnvStore_Get_posix isol (RealEnvStore_Set_posix isol env k v) k = Returned (Some v))
   \<and>
   (valid_wname (w_str k) \<and> \<not> first_is_EQ (w_str k) \<and>
    w_str v = v \<and> length v < arraysize_buffer \<and> length v \<le> kMaxLength isol \<longrightarrow>
      RealEnvStore_Get_win32 upcase isol (RealEnvStore_Set_win32 upcase isol wenv k v) k
        = Returned (Some v))"
proof (intro conjI impI)
  assume "\<not> EINVAL_name (c_str (Utf8Value isol k)) \<and>
    NewFromUtf8 isol (c_str (Utf8Value isol v)) = Some v"
  then show "RealEnvStore_Get_posix isol (RealEnvStore_Set_posix isol env k v) k = Returned (Some v)"
    by (simp add: Get_posix_after_Set)
next
  assume a: "valid_wname (w_str k) \<and> \<not> first_is_EQ (w_str k) \<and>
    w_str v = v \<and> length v < arraysize_buffer \<and> length v \<le> kMaxLength isol"
  then have "find_variable upcase (RealEnvStore_Set_win32 upcase isol wenv k v) (w_str k) = Some v"
    by (simp add: Set_win32_valid find_variable_set_variable)
  then show "RealEnvStore_Get_win32 upcase isol (RealEnvStore_Set_win32 upcase isol wenv k v) k
        = Returned (Some v)"
    using a by (simp add: Get_win32_found)
qed

theorem Set_then_Get_returns_value_witness:
  "\<not> EINVAL_name (c_str (Utf8Value ascii_isolate (js_of_ascii ''FOO''))) \<and>
   NewFromUtf8 ascii_isolate (c_str (Utf8Value ascii_isolate (js_of_ascii ''bar'')))
     = Some (js_of_ascii ''bar'') \<and>
   RealEnvStore_Get_posix ascii_isolate
     (RealEnvStore_Set_posix ascii_isolate [''HOME=/root'', ''FOO=old'']
        (js_of_ascii ''FOO'') (js_of_ascii ''bar''))
     (js_of_ascii ''FOO'') = Returned (Some (js_of_ascii ''bar'')) \<and>
   valid_wname (w_str (js_of_ascii ''FOO'')) \<and> \<not> first_is_EQ (w_str (js_of_ascii ''FOO'')) \<and>
   w_str (js_of_ascii ''bar'') = js_of_ascii ''bar'' \<and>
   length (js_of_ascii ''bar'') < arraysize_buffer \<and>
   length (js_of_ascii ''bar'') \<le> kMaxLength ascii_isolate \<and>
   RealEnvStore_Get_win32 id ascii_isolate
     (RealEnvStore_Set_win32 id ascii_isolate [js_of_ascii ''=C:=C:/'', js_of_ascii ''Foo=old'']
        (js_of_ascii ''FOO'') (js_of_ascii ''bar''))
     (js_of_ascii ''FOO'') = Returned (Some (js_of_ascii ''bar''))"
proof -
  have p: "\<not> EINVAL_name (c_str (Utf8Value ascii_isolate (js_of_ascii ''FOO''))) \<and>
    NewFromUtf8 ascii_isolate (c_str (Utf8Value ascii_isolate (js_of_ascii ''bar'')))
      = Some (js_of_ascii ''bar'')"
    by (simp add: ascii_eval EINVAL_name_def c_str_def)
  have w: "valid_wname (w_str (js_of_ascii ''FOO'')) \<and> \<not> first_is_EQ (w_str (js_of_ascii ''FOO'')) \<and>
    w_str (js_of_ascii ''bar'') = js_of_ascii ''bar'' \<and>
    length (js_of_ascii ''bar'') < arraysize_buffer \<and>
    length (js_of_ascii ''bar'') \<le> kMaxLength ascii_isolate"
    by (simp add: ascii_eval valid_wname_def w_str_def arraysize_buffer_def)
  from p w
    Set_then_Get_returns_value [of ascii_isolate "js_of_ascii ''FOO''" "js_of_ascii ''bar''"
      "[''HOME=/root'', ''FOO=old'']" id "[js_of_ascii ''=C:=C:/'', js_of_ascii ''Foo=old'']"]
  show ?thesis by blast
qed

text \<open>
  C1 as stated fails: a key that begins with \<open>=\<close> is not written on the UTF-16
  platform; a key with \<open>=\<close> in it, or an empty key, is refused by \<open>setenv\<close>; and a
  value of 32767 code units is stored on the UTF-16 platform but does not fit the
  buffer of Get.
\<close>

theorem Set_then_Get_counterexample:
  "RealEnvStore_Get_win32 id ascii_isolate
     (RealEnvStore_Set_win32 id ascii_isolate [] (js_of_ascii ''=C:'') (js_of_ascii ''x''))
     (js_of_ascii ''=C:'') \<noteq> Returned (Some (js_of_ascii ''x'')) \<and>
   RealEnvStore_Get_posix ascii_isolate
     (RealEnvStore_Set_posix ascii_isolate [] (js_of_ascii ''A=B'') (js_of_ascii ''c''))
     (js_of_ascii ''A=B'') \<noteq> Returned (Some (js_of_ascii ''c'')) \<and>
   RealEnvStore_Get_posix ascii_isolate
     (RealEnvStore_Set_posix ascii_isolate [] [] (js_of_ascii ''c''))
     [] \<noteq> Returned (Some (js_of_ascii ''c'')) \<and>
   RealEnvStore_Get_win32 id ascii_isolate
     (RealEnvStore_Set_win32 id ascii_isolate [] (js_of_ascii ''A'') (replicate 32767 0x61))
     (js_of_ascii ''A'') \<noteq> Returned (Some (replicate 32767 0x61))"
proof (intro conjI)
  show "RealEnvStore_Get_win32 id ascii_isolate
     (RealEnvStore_Set_win32 id ascii_isolate [] (js_of_ascii ''=C:'') (js_of_ascii ''x''))
     (js_of_ascii ''=C:'') \<noteq> Returned (Some (js_of_ascii ''x''))"
    by (simp add: ascii_eval win32_eval)
  show "RealEnvStore_Get_posix ascii_isolate
     (RealEnvStore_Set_posix ascii_isolate [] (js_of_ascii ''A=B'') (js_of_ascii ''c''))
     (js_of_ascii ''A=B'') \<noteq> Returned (Some (js_of_ascii ''c''))"
    by (simp add: ascii_eval posix_eval)
  show "RealEnvStore_Get_posix ascii_isolate
     (RealEnvStore_Set_posix ascii_isolate [] [] (js_of_ascii ''c''))
     [] \<noteq> Returned (Some (js_of_ascii ''c''))"
    by (simp add: ascii_eval posix_eval)
  have r: "w_str (replicate 32767 (0x61 :: wchar)) = replicate 32767 0x61"
    unfolding w_str_def by (rule takeWhile_eq_all_conv [THEN iffD2]) simp
  have k: "valid_wname (w_str (js_of_ascii ''A''))"
    and k': "\<not> first_is_EQ (w_str (js_of_ascii ''A''))"
    by (simp_all add: js_of_ascii_def valid_wname_def w_str_def)
  have s: "RealEnvStore_Set_win32 id ascii_isolate [] (js_of_ascii ''A'') (replicate 32767 0x61)
      = set_variable id [] (w_str (js_of_ascii ''A'')) (replicate 32767 0x61)"
    using Set_win32_valid [OF k k', of id ascii_isolate "[]" "replicate 32767 0x61"]
    by (simp only: r)
  from k have "find_variable id
      (set_variable id [] (w_str (js_of_ascii ''A'')) (replicate 32767 0x61))
      (w_str (js_of_ascii ''A'')) = Some (replicate 32767 0x61)"
    by (intro find_variable_set_variable) simp
  then have "find_variable id
      (RealEnvStore_Set_win32 id ascii_isolate [] (js_of_ascii ''A'') (replicate 32767 0x61))
      (w_str (js_of_ascii ''A'')) = Some (replicate 32767 0x61)"
    by (simp only: s)
  then show "RealEnvStore_Get_win32 id ascii_isolate
     (RealEnvStore_Set_win32 id ascii_isolate [] (js_of_ascii ''A'') (replicate 32767 0x61))
     (js_of_ascii ''A'') \<noteq> Returned (Some (replicate 32767 0x61))"
    by (simp add: Get_win32_found arraysize_buffer_def)
qed

section \<open>Delete\<close>

lemma Delete_posix_valid:
  "\<not> EINVAL_name (c_str (Utf8Value isol k)) \<Longrightarrow>
   RealEnvStore_Delete_posix isol env k =
     filter (\<lambda>e. \<not> env_match (c_str (Utf8Value isol k)) e) env"
  by (simp add: RealEnvStore_Delete_posix_def unsetenv_def)

lemma Delete_posix_invalid:
  "EINVAL_name (c_str (Utf8Value isol k)) \<Longrightarrow> RealEnvStore_Delete_posix isol env k = env"
  by (simp add: RealEnvStore_Delete_posix_def unsetenv_def)

lemma Delete_win32_valid:
  "valid_wname (w_str k) \<Longrightarrow>
   RealEnvStore_Delete_win32 upcase isol env k =
     filter (\<lambda>r. \<not> same_name upcase (record_name r) (w_str k)) env"
  by (simp add: RealEnvStore_Delete_win32_def TwoByteValue_def SetEnvironmentVariableW_def)

lemma Delete_win32_invalid:
  "\<not> valid_wname (w_str k) \<Longrightarrow> RealEnvStore_Delete_win32 upcase isol env k = env"
  by (simp add: RealEnvStore_Delete_win32_def TwoByteValue_def SetEnvironmentVariableW_def)

lemma Get_posix_not_found:
  "getenv env (c_str (Utf8Value isol k)) = None \<Longrightarrow>
   RealEnvStore_Get_posix isol env k = Returned None"
  by (simp add: RealEnvStore_Get_posix_def)

lemma Delete_posix_twice:
  "RealEnvStore_Delete_posix isol (RealEnvStore_Delete_posix isol env k) k =
   RealEnvStore_Delete_posix isol env k"
  by (cases "EINVAL_name (c_str (Utf8Value isol k))")
     (simp_all add: Delete_posix_valid Delete_posix_invalid)

lemma Delete_win32_twice:
  "RealEnvStore_Delete_win32 upcase isol (RealEnvStore_Delete_win32 upcase isol env k) k =
   RealEnvStore_Delete_win32 upcase isol env k"
  by (cases "valid_wname (w_str k)")
     (simp_all add: Delete_win32_valid Delete_win32_invalid)

lemma Get_posix_after_Delete:
  assumes "CHR ''='' \<notin> set (c_str (Utf8Value isol k))"
  shows "RealEnvStore_Get_posix isol (RealEnvStore_Delete_posix isol env k) k = Returned None"
proof (cases "c_str (Utf8Value isol k) = []")
  case True
  then have "getenv (RealEnvStore_Delete_posix isol env k) (c_str (Utf8Value isol k)) = None"
    by (simp add: getenv_def)
  then show ?thesis by (rule Get_posix_not_found)
next
  case False
  with assms have v: "\<not> EINVAL_name (c_str (Utf8Value isol k))"
    by (simp add: EINVAL_name_def)
  then have "getenv (RealEnvStore_Delete_posix isol env k) (c_str (Utf8Value isol k)) = None"
    by (simp add: Delete_posix_valid getenv_def getenv_scan_unset)
  then show ?thesis by (rule Get_posix_not_found)
qed

lemma find_variable_refused_name:
  assumes refused: "\<not> valid_wname name"
    and records: "[] \<notin> set env"
    and fold: "\<forall>c. upcase c = upcase L_EQ \<longrightarrow> c = L_EQ"
  shows "find_variable upcase env name = None"
proof -
  have "\<not> same_name upcase (record_name r) name" if r: "r \<in> set env" for r
  proof
    assume s: "same_name upcase (record_name r) name"
    from r records have rne: "r \<noteq> []" by auto
    then have rn: "record_name r \<noteq> []" by (cases r) simp_all
    from s have m: "map upcase (record_name r) = map upcase name"
      by (simp add: same_name_def)
    with rn have "name \<noteq> []" by auto
    with refused have "L_EQ \<in> set (tl name)" by (simp add: valid_wname_def)
    then have "upcase L_EQ \<in> set (map upcase (tl name))" by simp
    also from m have "map upcase (tl name) = map upcase (tl (record_name r))"
      by (simp add: map_tl)
    finally obtain x where x: "x \<in> set (tl (record_name r))" and "upcase x = upcase L_EQ"
      by auto
    with fold have "x = L_EQ" by blast
    moreover from rne have "L_EQ \<notin> set (tl (record_name r))"
      using valid_wname_record_name [of r] by (simp add: valid_wname_def)
    ultimately show False using x by simp
  qed
  then show ?thesis by (simp add: find_variable_None_iff)
qed

lemma Get_win32_after_Delete:
  assumes "[] \<notin> set env" and "\<forall>c. upcase c = upcase L_EQ \<longrightarrow> c = L_EQ"
  shows "RealEnvStore_Get_win32 upcase isol (RealEnvStore_Delete_win32 upcase isol env k) k
    = Returned None"
proof (cases "valid_wname (w_str k)")
  case True
  then have "find_variable upcase (RealEnvStore_Delete_win32 upcase isol env k) (w_str k) = None"
    by (simp add: Delete_win32_valid find_variable_filter)
  then show ?thesis by (rule Get_win32_not_found)
next
  case False
  with assms have "find_variable upcase env (w_str k) = None"
    by (intro find_variable_refused_name)
  with False have "find_variable upcase (RealEnvStore_Delete_win32 upcase isol env k) (w_str k) = None"
    by (simp add: Delete_win32_invalid)
  then show ?thesis by (rule Get_win32_not_found)
qed

text \<open>
  C6 (as amended). Delete(k) followed by Get(k) returns "no value": on the byte-string
  platform for every key whose native form contains no \<open>=\<close> (the empty key included),
  on the UTF-16 platform for every key, the block being one without empty records (an
  empty record is its terminator) and the case folding of the platform taking no other
  unit to the image of \<open>=\<close>. Delete always returns, a second Delete of the same key
  changes nothing more, and the interceptor \<open>EnvDeleter\<close> reports \<open>true\<close> whatever
  the property is and whether or not it was present, the second time as the first.
\<close>

theorem Delete_then_Get_no_value:
  "(CHR ''='' \<notin> set (c_str (Utf8Value isol k)) \<longrightarrow>
      RealEnvStore_Get_posix isol (RealEnvStore_Delete_posix isol env k) k = Returned None)
   \<and> ([] \<notin> set wenv \<and> (\<forall>c. upcase c = upcase L_EQ \<longrightarrow> c = L_EQ) \<longrightarrow>
      RealEnvStore_Get_win32 upcase isol (RealEnvStore_Delete_win32 upcase isol wenv k) k
        = Returned None)
   \<and> RealEnvStore_Delete_posix isol (RealEnvStore_Delete_posix isol env k) k
        = RealEnvStore_Delete_posix isol env k
   \<and> RealEnvStore_Delete_win32 upcase isol (RealEnvStore_Delete_win32 upcase isol wenv k) k
        = RealEnvStore_Delete_win32 upcase isol wenv k
   \<and> fst (EnvDeleter kv e property) = Some True
   \<and> fst (EnvDeleter kv (snd (EnvDeleter kv e property)) property) = Some True"
proof (intro conjI impI)
  assume "CHR ''='' \<notin> set (c_str (Utf8Value isol k))"
  then show "RealEnvStore_Get_posix isol (RealEnvStore_Delete_posix isol env k) k = Returned None"
    by (rule Get_posix_after_Delete)
next
  assume "[] \<notin> set wenv \<and> (\<forall>c. upcase c = upcase L_EQ \<longrightarrow> c = L_EQ)"
  then show "RealEnvStore_Get_win32 upcase isol (RealEnvStore_Delete_win32 upcase isol wenv k) k
      = Returned None"
    by (intro Get_win32_after_Delete) simp_all
qed (simp_all add: Delete_posix_twice Delete_win32_twice EnvDeleter_def Let_def)

text \<open>The witness deletes a variable that is there, the empty key, and, on the UTF-16
  platform, a name the platform refuses.\<close>

theorem Delete_then_Get_no_value_witness:
  "CHR ''='' \<notin> set (c_str (Utf8Value ascii_isolate (js_of_ascii ''FOO''))) \<and>
   RealEnvStore_Get_posix ascii_isolate
     (RealEnvStore_Delete_posix ascii_isolate [''FOO=bar'', ''HOME=/root''] (js_of_ascii ''FOO''))
     (js_of_ascii ''FOO'') = Returned None \<and>
   CHR ''='' \<notin> set (c_str (Utf8Value ascii_isolate [])) \<and>
   RealEnvStore_Get_posix ascii_isolate
     (RealEnvStore_Delete_posix ascii_isolate [''=x'', ''HOME=/root''] []) [] = Returned None \<and>
   [] \<notin> set [js_of_ascii ''A=B=c'', js_of_ascii ''FOO=bar''] \<and>
   RealEnvStore_Get_win32 id ascii_isolate
     (RealEnvStore_Delete_win32 id ascii_isolate
        [js_of_ascii ''A=B=c'', js_of_ascii ''FOO=bar''] (js_of_ascii ''FOO''))
     (js_of_ascii ''FOO'') = Returned None \<and>
   RealEnvStore_Get_win32 id ascii_isolate
     (RealEnvStore_Delete_win32 id ascii_isolate
        [js_of_ascii ''A=B=c'', js_of_ascii ''FOO=bar''] (js_of_ascii ''A=B''))
     (js_of_ascii ''A=B'') = Returned None \<and>
   fst (EnvDeleter (RealEnvStore_posix ascii_isolate)
     \<lparr>pending_deprecation = False, emit_env_nonstring_warning = True,
      envvars = [''FOO=bar''], warnings = []\<rparr> (JSSymbol 0)) = Some True"
proof -
  have p1: "CHR ''='' \<notin> set (c_str (Utf8Value ascii_isolate (js_of_ascii ''FOO'')))"
    by (simp add: ascii_eval c_str_def)
  have p2: "CHR ''='' \<notin> set (c_str (Utf8Value ascii_isolate []))"
    by (simp add: ascii_eval c_str_def)
  have w: "[] \<notin> set [js_of_ascii ''A=B=c'', js_of_ascii ''FOO=bar''] \<and>
      (\<forall>c :: wchar. id c = id L_EQ \<longrightarrow> c = L_EQ)"
    by (simp add: js_of_ascii_def)
  let ?e = "\<lparr>pending_deprecation = False, emit_env_nonstring_warning = True,
        envvars = [''FOO=bar''], warnings = []\<rparr>"
  from p1 w
    Delete_then_Get_no_value [of ascii_isolate "js_of_ascii ''FOO''"
      "[''FOO=bar'', ''HOME=/root'']" "[js_of_ascii ''A=B=c'', js_of_ascii ''FOO=bar'']" id
      "RealEnvStore_posix ascii_isolate" ?e "JSSymbol 0"]
  have a: "RealEnvStore_Get_posix ascii_isolate
     (RealEnvStore_Delete_posix ascii_isolate [''FOO=bar'', ''HOME=/root''] (js_of_ascii ''FOO''))
     (js_of_ascii ''FOO'') = Returned None \<and>
   RealEnvStore_Get_win32 id ascii_isolate
     (RealEnvStore_Delete_win32 id ascii_isolate
        [js_of_ascii ''A=B=c'', js_of_ascii ''FOO=bar''] (js_of_ascii ''FOO''))
     (js_of_ascii ''FOO'') = Returned None \<and>
   fst (EnvDeleter (RealEnvStore_posix ascii_isolate) ?e (JSSymbol 0)) = Some True"
    by blast
  from p2 w
    Delete_then_Get_no_value [of ascii_isolate "[]"
      "[''=x'', ''HOME=/root'']" "[js_of_ascii ''A=B=c'', js_of_ascii ''FOO=bar'']" id
      "RealEnvStore_posix ascii_isolate" ?e "JSSymbol 0"]
  have b: "RealEnvStore_Get_posix ascii_isolate
     (RealEnvStore_Delete_posix ascii_isolate [''=x'', ''HOME=/root''] []) [] = Returned None"
    by blast
  from w
    Delete_then_Get_no_value [of ascii_isolate "js_of_ascii ''A=B''"
      "[''FOO=bar'', ''HOME=/root'']" "[js_of_ascii ''A=B=c'', js_of_ascii ''FOO=bar'']" id
      "RealEnvStore_posix ascii_isolate" ?e "JSSymbol 0"]
  have c: "RealEnvStore_Get_win32 id ascii_isolate
     (RealEnvStore_Delete_win32 id ascii_isolate
        [js_of_ascii ''A=B=c'', js_of_ascii ''FOO=bar''] (js_of_ascii ''A=B''))
     (js_of_ascii ''A=B'') = Returned None"
    by blast
  from p1 p2 w a b c show ?thesis by blast
qed

text \<open>
  C6 as stated fails on the byte-string platform for a key with \<open>=\<close> in it:
  \<open>unsetenv\<close> refuses the name and removes nothing, and \<open>getenv\<close> still finds the
  record \<open>A=B=c\<close> under the name \<open>A=B\<close>.
\<close>

theorem Delete_then_Get_counterexample:
  "RealEnvStore_Get_posix ascii_isolate
     (RealEnvStore_Delete_posix ascii_isolate [''A=B=c''] (js_of_ascii ''A=B''))
     (js_of_ascii ''A=B'') = Returned (Some (js_of_ascii ''c''))"
  by (simp add: ascii_eval posix_eval)

section \<open>The buffer of Get on the UTF-16 platform\<close>

text \<open>
  C3 (as amended). On the UTF-16 platform Get never returns a truncated value. When the
  value of the variable, terminator included, fits the buffer of 32767 code units, Get
  returns the whole value, or fails with \<open>ERR_STRING_TOO_LONG\<close> when the host cannot
  make a string of that length. When it does not fit, Get raises no error and returns
  "no value", as it does for a variable that is not there.
\<close>

theorem Get_win32_buffer_ceiling:
  "find_variable upcase env (w_str k) = Some v \<longrightarrow>
     (arraysize_buffer < length v + 1 \<longrightarrow>
        RealEnvStore_Get_win32 upcase isol env k = Returned None) \<and>
     (length v + 1 \<le> arraysize_buffer \<and> length v \<le> kMaxLength isol \<longrightarrow>
        RealEnvStore_Get_win32 upcase isol env k = Returned (Some v)) \<and>
     (length v + 1 \<le> arraysize_buffer \<and> kMaxLength isol < length v \<longrightarrow>
        RealEnvStore_Get_win32 upcase isol env k = Threw ERR_STRING_TOO_LONG) \<and>
     (\<forall>s. RealEnvStore_Get_win32 upcase isol env k = Returned (Some s) \<longrightarrow> s = v)"
  by (auto simp: Get_win32_found)

theorem Get_win32_buffer_ceiling_witness:
  "find_variable id [js_of_ascii ''A=1''] (w_str (js_of_ascii ''A'')) = Some (js_of_ascii ''1'') \<and>
   length (js_of_ascii ''1'') + 1 \<le> arraysize_buffer \<and>
   length (js_of_ascii ''1'') \<le> kMaxLength ascii_isolate \<and>
   RealEnvStore_Get_win32 id ascii_isolate [js_of_ascii ''A=1''] (js_of_ascii ''A'')
     = Returned (Some (js_of_ascii ''1'')) \<and>
   find_variable id [[0x41, L_EQ] @ replicate 32767 0x61] (w_str [0x41])
     = Some (replicate 32767 0x61) \<and>
   arraysize_buffer < length (replicate 32767 (0x61 :: wchar)) + 1 \<and>
   RealEnvStore_Get_win32 id ascii_isolate [[0x41, L_EQ] @ replicate 32767 0x61] [0x41]
     = Returned None"
proof -
  have f1: "find_variable id [js_of_ascii ''A=1''] (w_str (js_of_ascii ''A''))
      = Some (js_of_ascii ''1'')"
    by (simp add: js_of_ascii_def w_str_def same_name_def record_value_def)
  have b1: "length (js_of_ascii ''1'') + 1 \<le> arraysize_buffer \<and>
      length (js_of_ascii ''1'') \<le> kMaxLength ascii_isolate"
    by (simp add: ascii_eval arraysize_buffer_def)
  have f2: "find_variable id [[0x41, L_EQ] @ replicate 32767 0x61] (w_str [0x41])
      = Some (replicate 32767 0x61)"
    by (simp add: w_str_def same_name_def record_value_def)
  have b2: "arraysize_buffer < length (replicate 32767 (0x61 :: wchar)) + 1"
    by (simp add: arraysize_buffer_def)
  from f1 b1
    Get_win32_buffer_ceiling [of id "[js_of_ascii ''A=1'']" "js_of_ascii ''A''"
      "js_of_ascii ''1''" ascii_isolate]
  have g1: "RealEnvStore_Get_win32 id ascii_isolate [js_of_ascii ''A=1''] (js_of_ascii ''A'')
     = Returned (Some (js_of_ascii ''1''))"
    by blast
  from f2 b2
    Get_win32_buffer_ceiling [of id "[[0x41, L_EQ] @ replicate 32767 0x61]" "[0x41]"
      "replicate 32767 0x61" ascii_isolate]
  have g2: "RealEnvStore_Get_win32 id ascii_isolate [[0x41, L_EQ] @ replicate 32767 0x61] [0x41]
     = Returned None"
    by blast
  from f1 b1 g1 f2 b2 g2 show ?thesis by blast
qed

text \<open>
  C3 as stated fails: for a variable whose value has 32767 code units, Get does not fail
  with an error; it returns "no value", the answer it gives for an absent key.
\<close>

theorem Get_win32_buffer_ceiling_counterexample:
  "RealEnvStore_Get_win32 id ascii_isolate [[0x41, L_EQ] @ replicate 32767 0x61] [0x41]
     = Returned None \<and>
   RealEnvStore_Get_win32 id ascii_isolate [[0x41, L_EQ] @ replicate 32767 0x61] [0x41]
     \<noteq> Threw ERR_STRING_TOO_LONG \<and>
   RealEnvStore_Get_win32 id ascii_isolate [] [0x41] = Returned None"
proof -
  have "find_variable id [[0x41, L_EQ] @ replicate 32767 0x61] (w_str [0x41])
      = Some (replicate 32767 0x61)"
    by (simp add: w_str_def same_name_def record_value_def)
  then have "RealEnvStore_Get_win32 id ascii_isolate [[0x41, L_EQ] @ replicate 32767 0x61] [0x41]
     = Returned None"
    by (simp add: Get_win32_found arraysize_buffer_def)
  moreover have "RealEnvStore_Get_win32 id ascii_isolate [] [0x41] = Returned None"
    by (simp add: Get_win32_not_found)
  ultimately show ?thesis by simp
qed

section \<open>Query\<close>

lemma Query_posix_eq:
  "RealEnvStore_Query_posix isol env k =
     (if getenv env (c_str (Utf8Value isol k)) = None then - 1 else 0)"
  by (simp add: RealEnvStore_Query_posix_def)

lemma Query_win32_eq:
  "RealEnvStore_Query_win32 upcase isol env k =
     (if find_variable upcase env (w_str k) = None then - 1
      else if first_is_EQ (w_str k) then ReadOnly OR DontDelete OR DontEnum else 0)"
  by (cases "find_variable upcase env (w_str k)")
     (simp_all add: RealEnvStore_Query_win32_def TwoByteValue_def GetEnvironmentVariableW_def
        ERROR_SUCCESS_def ERROR_ENVVAR_NOT_FOUND_def)

lemma getenv_None_if_no_record:
  "\<forall>e \<in> set env. \<not> env_match name e \<Longrightarrow> getenv env name = None"
  by (simp add: getenv_def getenv_scan_None_iff)

lemma env_match_key_of_record:
  assumes "CHR ''='' \<notin> set name" and "env_match name e"
  shows "key_of_record (CHR ''='') e = name"
proof -
  from assms(2) have "e = (name @ ''='') @ drop (length name + 1) e"
    unfolding env_match_def by (metis append_take_drop_id)
  then obtain rest where e: "e = name @ CHR ''='' # rest" by simp
  from assms(1) have "takeWhile (\<lambda>c. c \<noteq> CHR ''='') (name @ CHR ''='' # rest) = name"
    by (simp add: takeWhile_append)
  with e show ?thesis by (simp add: key_of_record_def)
qed

lemma getenv_None_if_no_key:
  assumes "CHR ''='' \<notin> set name"
    and "name \<notin> set (map (key_of_record (CHR ''='')) env)"
  shows "getenv env name = None"
proof -
  have "\<not> env_match name e" if "e \<in> set env" for e
    using that assms env_match_key_of_record [of name e] by auto
  then show ?thesis by (simp add: getenv_None_if_no_record)
qed

lemma keys_add_to_environ:
  "CHR ''='' \<notin> set name \<Longrightarrow>
   set (map (key_of_record (CHR ''='')) (add_to_environ env name val))
     \<subseteq> insert name (set (map (key_of_record (CHR ''='')) env))"
  by (induction env) (auto simp: key_of_record_def takeWhile_append)

lemma keys_Set_posix:
  "set (map (key_of_record (CHR ''='')) (RealEnvStore_Set_posix isol env k v))
     \<subseteq> insert (c_str (Utf8Value isol k)) (set (map (key_of_record (CHR ''='')) env))"
proof (cases "EINVAL_name (c_str (Utf8Value isol k))")
  case True
  then show ?thesis
    by (auto simp: RealEnvStore_Set_posix_def setenv_def)
next
  case False
  then have "RealEnvStore_Set_posix isol env k v =
      add_to_environ env (c_str (Utf8Value isol k)) (c_str (Utf8Value isol v))"
    by (simp add: RealEnvStore_Set_posix_def setenv_def)
  moreover from False have "CHR ''='' \<notin> set (c_str (Utf8Value isol k))"
    by (simp add: EINVAL_name_def)
  ultimately show ?thesis
    using keys_add_to_environ [of "c_str (Utf8Value isol k)" env "c_str (Utf8Value isol v)"]
    by simp
qed

text \<open>
  C5 (as amended). Query only reads the block (it is a function of it and returns
  nothing else) and has three answers, \<open>-1\<close> for "not present", \<open>0\<close> for "present,
  normal" and the read-only/hidden flags. On a key that no record of the block has, it
  answers \<open>-1\<close>: on the byte-string platform for a key whose native form contains no
  \<open>=\<close>, the key of a record being its text before the first \<open>=\<close>; on the UTF-16
  platform for every key, the name of a record being compared as the platform compares
  names. A Set of another key adds no record of this key to the block. After a Set of
  the key that the platform accepted, Query answers \<open>0\<close>; and a record with an empty
  value is found.
\<close>

theorem Query_tri_state:
  "RealEnvStore_Query_posix isol env k \<in> {- 1, 0}
   \<and> RealEnvStore_Query_win32 upcase isol wenv k \<in> {- 1, 0, ReadOnly OR DontDelete OR DontEnum}
   \<and> (CHR ''='' \<notin> set (c_str (Utf8Value isol k)) \<and>
        c_str (Utf8Value isol k) \<notin> set (map (key_of_record (CHR ''='')) env) \<longrightarrow>
        RealEnvStore_Query_posix isol env k = - 1)
   \<and> set (map (key_of_record (CHR ''='')) (RealEnvStore_Set_posix isol env k' v))
        \<subseteq> insert (c_str (Utf8Value isol k')) (set (map (key_of_record (CHR ''='')) env))
   \<and> ((\<forall>r \<in> set wenv. \<not> same_name upcase (record_name r) (w_str k)) \<longrightarrow>
        RealEnvStore_Query_win32 upcase isol wenv k = - 1)
   \<and> (fst (setenv env (c_str (Utf8Value isol k)) (c_str (Utf8Value isol v)) 1) = 0 \<longrightarrow>
        RealEnvStore_Query_posix isol (RealEnvStore_Set_posix isol env k v) k = 0)
   \<and> (\<not> first_is_EQ (w_str k) \<and>
        fst (SetEnvironmentVariableW upcase wenv (w_str k) (Some (w_str v))) \<longrightarrow>
        RealEnvStore_Query_win32 upcase isol (RealEnvStore_Set_win32 upcase isol wenv k v) k = 0)
   \<and> (getenv env (c_str (Utf8Value isol k)) = Some [] \<longrightarrow>
        RealEnvStore_Query_posix isol env k = 0)
   \<and> (find_variable upcase wenv (w_str k) = Some [] \<longrightarrow>
        RealEnvStore_Query_win32 upcase isol wenv k =
          (if first_is_EQ (w_str k) then ReadOnly OR DontDelete OR DontEnum else 0))"
proof (intro conjI impI)
  show "RealEnvStore_Query_posix isol env k \<in> {- 1, 0}"
    by (simp add: Query_posix_eq)
  show "RealEnvStore_Query_win32 upcase isol wenv k \<in> {- 1, 0, ReadOnly OR DontDelete OR DontEnum}"
    by (simp add: Query_win32_eq)
  show "set (map (key_of_record (CHR ''='')) (RealEnvStore_Set_posix isol env k' v))
        \<subseteq> insert (c_str (Utf8Value isol k')) (set (map (key_of_record (CHR ''='')) env))"
    by (rule keys_Set_posix)
next
  assume "CHR ''='' \<notin> set (c_str (Utf8Value isol k)) \<and>
        c_str (Utf8Value isol k) \<notin> set (map (key_of_record (CHR ''='')) env)"
  then have "getenv env (c_str (Utf8Value isol k)) = None"
    by (intro getenv_None_if_no_key) simp_all
  then show "RealEnvStore_Query_posix isol env k = - 1"
    by (simp add: Query_posix_eq)
next
  assume "\<forall>r \<in> set wenv. \<not> same_name upcase (record_name r) (w_str k)"
  then have "find_variable upcase wenv (w_str k) = None"
    by (simp add: find_variable_None_iff)
  then show "RealEnvStore_Query_win32 upcase isol wenv k = - 1"
    by (simp add: Query_win32_eq)
next
  let ?key = "c_str (Utf8Value isol k)" and ?val = "c_str (Utf8Value isol v)"
  assume "fst (setenv env ?key ?val 1) = 0"
  then have ok: "\<not> EINVAL_name ?key"
    by (auto simp: setenv_def split: if_splits)
  then have "RealEnvStore_Set_posix isol env k v = add_to_environ env ?key ?val"
    by (simp add: RealEnvStore_Set_posix_def setenv_def)
  moreover from ok have "getenv (add_to_environ env ?key ?val) ?key = Some ?val"
    by (simp add: getenv_def getenv_scan_add_to_environ EINVAL_name_def)
  ultimately show "RealEnvStore_Query_posix isol (RealEnvStore_Set_posix isol env k v) k = 0"
    by (simp add: Query_posix_eq)
next
  assume a: "\<not> first_is_EQ (w_str k) \<and>
    fst (SetEnvironmentVariableW upcase wenv (w_str k) (Some (w_str v)))"
  then have ok: "valid_wname (w_str k)"
    by (auto simp: SetEnvironmentVariableW_def split: if_splits)
  with a have "find_variable upcase (RealEnvStore_Set_win32 upcase isol wenv k v) (w_str k)
      = Some (w_str v)"
    by (simp add: Set_win32_valid find_variable_set_variable)
  with a show "RealEnvStore_Query_win32 upcase isol (RealEnvStore_Set_win32 upcase isol wenv k v) k = 0"
    by (simp add: Query_win32_eq)
next
  assume "getenv env (c_str (Utf8Value isol k)) = Some []"
  then show "RealEnvStore_Query_posix isol env k = 0"
    by (simp add: Query_posix_eq)
next
  assume "find_variable upcase wenv (w_str k) = Some []"
  then show "RealEnvStore_Query_win32 upcase isol wenv k =
      (if first_is_EQ (w_str k) then ReadOnly OR DontDelete OR DontEnum else 0)"
    by (simp add: Query_win32_eq)
qed

theorem Query_tri_state_witness:
  "CHR ''='' \<notin> set (c_str (Utf8Value ascii_isolate (js_of_ascii ''FOO''))) \<and>
   c_str (Utf8Value ascii_isolate (js_of_ascii ''FOO''))
     \<notin> set (map (key_of_record (CHR ''='')) [''HOME=/root'', ''FOOD=x'']) \<and>
   RealEnvStore_Query_posix ascii_isolate [''HOME=/root'', ''FOOD=x''] (js_of_ascii ''FOO'') = - 1 \<and>
   fst (setenv [''HOME=/root'', ''FOOD=x''] (c_str (Utf8Value ascii_isolate (js_of_ascii ''FOO'')))
      (c_str (Utf8Value ascii_isolate (js_of_ascii ''bar''))) 1) = 0 \<and>
   RealEnvStore_Query_posix ascii_isolate
      (RealEnvStore_Set_posix ascii_isolate [''HOME=/root'', ''FOOD=x'']
         (js_of_ascii ''FOO'') (js_of_ascii ''bar''))
      (js_of_ascii ''FOO'') = 0 \<and>
   getenv [''EMPTY=''] (c_str (Utf8Value ascii_isolate (js_of_ascii ''EMPTY''))) = Some [] \<and>
   RealEnvStore_Query_posix ascii_isolate [''EMPTY=''] (js_of_ascii ''EMPTY'') = 0 \<and>
   RealEnvStore_Query_win32 id ascii_isolate [js_of_ascii ''A=1''] (js_of_ascii ''FOO'') = - 1 \<and>
   \<not> first_is_EQ (w_str (js_of_ascii ''FOO'')) \<and>
   fst (SetEnvironmentVariableW id [js_of_ascii ''A=1''] (w_str (js_of_ascii ''FOO''))
      (Some (w_str (js_of_ascii ''bar'')))) \<and>
   RealEnvStore_Query_win32 id ascii_isolate
      (RealEnvStore_Set_win32 id ascii_isolate [js_of_ascii ''A=1''] (js_of_ascii ''FOO'') (js_of_ascii ''bar''))
      (js_of_ascii ''FOO'') = 0 \<and>
   find_variable id [js_of_ascii ''EMPTY=''] (w_str (js_of_ascii ''EMPTY'')) = Some [] \<and>
   RealEnvStore_Query_win32 id ascii_isolate [js_of_ascii ''EMPTY=''] (js_of_ascii ''EMPTY'') = 0"
proof -
  have h1: "CHR ''='' \<notin> set (c_str (Utf8Value ascii_isolate (js_of_ascii ''FOO''))) \<and>
      c_str (Utf8Value ascii_isolate (js_of_ascii ''FOO''))
        \<notin> set (map (key_of_record (CHR ''='')) [''HOME=/root'', ''FOOD=x''])"
    by (simp add: ascii_eval c_str_def key_of_record_def)
  have h2: "fst (setenv [''HOME=/root'', ''FOOD=x''] (c_str (Utf8Value ascii_isolate (js_of_ascii ''FOO'')))
      (c_str (Utf8Value ascii_isolate (js_of_ascii ''bar''))) 1) = 0"
    by (simp add: ascii_eval c_str_def setenv_def EINVAL_name_def)
  have h3: "getenv [''EMPTY=''] (c_str (Utf8Value ascii_isolate (js_of_ascii ''EMPTY''))) = Some []"
    by (simp add: ascii_eval c_str_def getenv_def env_match_def)
  have h4: "\<forall>r \<in> set [js_of_ascii ''A=1'']. \<not> same_name id (record_name r) (w_str (js_of_ascii ''FOO''))"
    by (simp add: js_of_ascii_def w_str_def same_name_def)
  have h5: "\<not> first_is_EQ (w_str (js_of_ascii ''FOO'')) \<and>
     fst (SetEnvironmentVariableW id [js_of_ascii ''A=1''] (w_str (js_of_ascii ''FOO''))
      (Some (w_str (js_of_ascii ''bar''))))"
    by (simp add: js_of_ascii_def w_str_def SetEnvironmentVariableW_def valid_wname_def)
  have h6: "find_variable id [js_of_ascii ''EMPTY=''] (w_str (js_of_ascii ''EMPTY'')) = Some []"
    by (simp add: js_of_ascii_def w_str_def same_name_def record_value_def)
  have h7: "\<not> first_is_EQ (w_str (js_of_ascii ''EMPTY''))"
    by (simp add: js_of_ascii_def w_str_def)
  note a = Query_tri_state [of ascii_isolate "[''HOME=/root'', ''FOOD=x'']" "js_of_ascii ''FOO''" id
      "[js_of_ascii ''A=1'']" "js_of_ascii ''FOO''" "js_of_ascii ''bar''"]
  note b = Query_tri_state [of ascii_isolate "[''EMPTY='']" "js_of_ascii ''EMPTY''" id
      "[js_of_ascii ''EMPTY='']" "js_of_ascii ''EMPTY''" "js_of_ascii ''bar''"]
  from h1 a have g1: "RealEnvStore_Query_posix ascii_isolate [''HOME=/root'', ''FOOD=x''] (js_of_ascii ''FOO'') = - 1"
    by blast
  from h2 a have g2: "RealEnvStore_Query_posix ascii_isolate
      (RealEnvStore_Set_posix ascii_isolate [''HOME=/root'', ''FOOD=x''] (js_of_ascii ''FOO'') (js_of_ascii ''bar''))
      (js_of_ascii ''FOO'') = 0"
    by blast
  from h3 b have g3: "RealEnvStore_Query_posix ascii_isolate [''EMPTY=''] (js_of_ascii ''EMPTY'') = 0"
    by blast
  from h4 a have g4: "RealEnvStore_Query_win32 id ascii_isolate [js_of_ascii ''A=1''] (js_of_ascii ''FOO'') = - 1"
    by blast
  from h5 a have g5: "RealEnvStore_Query_win32 id ascii_isolate
      (RealEnvStore_Set_win32 id ascii_isolate [js_of_ascii ''A=1''] (js_of_ascii ''FOO'') (js_of_ascii ''bar''))
      (js_of_ascii ''FOO'') = 0"
    by blast
  from h6 h7 b have g6: "RealEnvStore_Query_win32 id ascii_isolate [js_of_ascii ''EMPTY=''] (js_of_ascii ''EMPTY'') = 0"
    by simp
  from h1 h2 h3 h5 h6 g1 g2 g3 g4 g5 g6 show ?thesis by blast
qed

text \<open>
  C5 as stated fails on the byte-string platform: after Set of the key \<open>A\<close> to the value
  \<open>B=c\<close> the block has the one record \<open>A=B=c\<close>, whose key is \<open>A\<close>, and Enumerate
  lists \<open>A\<close> only; the key \<open>A=B\<close> was never written, and Query answers \<open>0\<close>,
  "present", for it.
\<close>

theorem Query_tri_state_counterexample:
  "RealEnvStore_Set_posix ascii_isolate [] (js_of_ascii ''A'') (js_of_ascii ''B=c'') = [''A=B=c''] \<and>
   ''A=B'' \<notin> set (map (key_of_record (CHR ''='')) [''A=B=c'']) \<and>
   RealEnvStore_Enumerate_posix ascii_isolate [''A=B=c''] = Returned [js_of_ascii ''A''] \<and>
   RealEnvStore_Query_posix ascii_isolate [''A=B=c''] (js_of_ascii ''A=B'') = 0"
  by (simp add: ascii_eval posix_eval key_of_record_def)

section \<open>Hidden entries on the UTF-16 platform\<close>

lemma first_is_EQ_w_str: "first_is_EQ (w_str k) = first_is_EQ k"
  by (cases k) (simp_all add: w_str_def)

lemma first_is_EQ_take:
  "\<not> first_is_EQ p \<Longrightarrow> \<not> first_is_EQ (take n p)"
  by (cases p; cases n) simp_all

lemma Enumerate_loop_win32_no_hidden:
  "Enumerate_loop_win32 isol rs env_v = Returned ks \<Longrightarrow>
   \<forall>x \<in> set env_v. \<not> first_is_EQ x \<Longrightarrow> \<forall>x \<in> set ks. \<not> first_is_EQ x"
proof (induction rs arbitrary: env_v)
  case Nil
  then show ?case by simp
next
  case (Cons p rest)
  show ?case
  proof (cases "p = [] \<or> first_is_EQ p")
    case True
    with Cons show ?thesis by (auto split: if_splits)
  next
    case False
    let ?len = "case wcschr p L_EQ of Some i \<Rightarrow> i | None \<Rightarrow> length p"
    from False Cons.prems(1) obtain rc where
      rc: "NewFromTwoByte isol (take ?len p) = Some rc"
      and rest: "Enumerate_loop_win32 isol rest (env_v @ [rc]) = Returned ks"
      by (auto simp: Let_def split: option.splits)
    from rc have "rc = take ?len p"
      by (simp add: NewFromTwoByte_def split: if_splits)
    with False have "\<not> first_is_EQ rc"
      by (simp add: first_is_EQ_take)
    with Cons.prems(2) have "\<forall>x \<in> set (env_v @ [rc]). \<not> first_is_EQ x"
      by simp
    with Cons.IH rest show ?thesis by blast
  qed
qed

lemma Enumerate_win32_no_hidden:
  "RealEnvStore_Enumerate_win32 isol env = Returned ks \<Longrightarrow> first_is_EQ k \<Longrightarrow> k \<notin> set ks"
  using Enumerate_loop_win32_no_hidden [of isol env "[]" ks]
  by (auto simp: RealEnvStore_Enumerate_win32_def GetEnvironmentStringsW_def)

text \<open>
  C2. On the UTF-16 platform, for every key whose first character is \<open>=\<close>: Set on the
  key leaves the environment block as it is (so the system neither creates nor changes
  such an entry by a write), the key is in no result of Enumerate, and Query on an
  entry of that name that is in the block answers the read-only/hidden flags
  (\<open>ReadOnly | DontDelete | DontEnum\<close>); Query never answers "present, normal" for
  such a key.
\<close>

theorem hidden_entries_win32:
  "first_is_EQ k \<longrightarrow>
     RealEnvStore_Set_win32 upcase isol env k v = env
     \<and> (\<forall>ks. RealEnvStore_Enumerate_win32 isol env = Returned ks \<longrightarrow> k \<notin> set ks)
     \<and> (find_variable upcase env (w_str k) \<noteq> None \<longrightarrow>
          RealEnvStore_Query_win32 upcase isol env k = ReadOnly OR DontDelete OR DontEnum)
     \<and> RealEnvStore_Query_win32 upcase isol env k \<noteq> 0"
proof (intro impI conjI allI)
  assume k: "first_is_EQ k"
  then show "RealEnvStore_Set_win32 upcase isol env k v = env"
    by (simp add: RealEnvStore_Set_win32_def TwoByteValue_def first_is_EQ_w_str)
  from k show "RealEnvStore_Query_win32 upcase isol env k \<noteq> 0"
    by (simp add: Query_win32_eq first_is_EQ_w_str ReadOnly_def DontDelete_def DontEnum_def)
  {
    assume "find_variable upcase env (w_str k) \<noteq> None"
    with k show "RealEnvStore_Query_win32 upcase isol env k = ReadOnly OR DontDelete OR DontEnum"
      by (auto simp: Query_win32_eq first_is_EQ_w_str)
  }
  {
    fix ks
    assume "RealEnvStore_Enumerate_win32 isol env = Returned ks"
    then show "k \<notin> set ks" using k by (rule Enumerate_win32_no_hidden)
  }
qed

text \<open>The scenario of the specification: the entry \<open>=C:\<close>.\<close>

theorem hidden_entries_win32_witness:
  "first_is_EQ (js_of_ascii ''=C:'') \<and>
   RealEnvStore_Set_win32 id ascii_isolate [js_of_ascii ''=C:=C:/dir'', js_of_ascii ''A=1'']
     (js_of_ascii ''=C:'') (js_of_ascii ''x'')
     = [js_of_ascii ''=C:=C:/dir'', js_of_ascii ''A=1''] \<and>
   RealEnvStore_Enumerate_win32 ascii_isolate [js_of_ascii ''=C:=C:/dir'', js_of_ascii ''A=1'']
     = Returned [js_of_ascii ''A''] \<and>
   js_of_ascii ''=C:'' \<notin> set [js_of_ascii ''A''] \<and>
   find_variable id [js_of_ascii ''=C:=C:/dir'', js_of_ascii ''A=1''] (w_str (js_of_ascii ''=C:''))
     \<noteq> None \<and>
   RealEnvStore_Query_win32 id ascii_isolate [js_of_ascii ''=C:=C:/dir'', js_of_ascii ''A=1'']
     (js_of_ascii ''=C:'') = 7"
proof -
  have k: "first_is_EQ (js_of_ascii ''=C:'')"
    by (simp add: js_of_ascii_def)
  have e: "RealEnvStore_Enumerate_win32 ascii_isolate
      [js_of_ascii ''=C:=C:/dir'', js_of_ascii ''A=1''] = Returned [js_of_ascii ''A'']"
    by (simp add: ascii_eval win32_eval)
  have f: "find_variable id [js_of_ascii ''=C:=C:/dir'', js_of_ascii ''A=1'']
      (w_str (js_of_ascii ''=C:'')) \<noteq> None"
    by (simp add: js_of_ascii_def w_str_def same_name_def)
  have seven: "ReadOnly OR DontDelete OR DontEnum = 7"
    by (simp add: ReadOnly_def DontDelete_def DontEnum_def)
  note h = hidden_entries_win32 [of "js_of_ascii ''=C:''" id ascii_isolate
      "[js_of_ascii ''=C:=C:/dir'', js_of_ascii ''A=1'']" "js_of_ascii ''x''"]
  from k h have s: "RealEnvStore_Set_win32 id ascii_isolate
      [js_of_ascii ''=C:=C:/dir'', js_of_ascii ''A=1''] (js_of_ascii ''=C:'') (js_of_ascii ''x'')
      = [js_of_ascii ''=C:=C:/dir'', js_of_ascii ''A=1'']"
    by blast
  from k h e have n: "js_of_ascii ''=C:'' \<notin> set [js_of_ascii ''A'']"
    by blast
  from k f h have "RealEnvStore_Query_win32 id ascii_isolate
      [js_of_ascii ''=C:=C:/dir'', js_of_ascii ''A=1''] (js_of_ascii ''=C:'')
      = ReadOnly OR DontDelete OR DontEnum"
    by blast
  with seven have q: "RealEnvStore_Query_win32 id ascii_isolate
      [js_of_ascii ''=C:=C:/dir'', js_of_ascii ''A=1''] (js_of_ascii ''=C:'') = 7"
    by simp
  from k s e n f q show ?thesis by blast
qed

section \<open>Enumerate\<close>

lemma take_strchr:
  "take (case strchr var c of Some i \<Rightarrow> i | None \<Rightarrow> length var) var = key_of_record c var"
proof (cases "c \<in> set var")
  case True
  then show ?thesis
    by (simp add: strchr_def key_of_record_def takeWhile_eq_take [symmetric])
next
  case False
  then have tw: "takeWhile (\<lambda>x. x \<noteq> c) var = var"
    by (intro takeWhile_eq_all_conv [THEN iffD2]) auto
  from False show ?thesis
    by (simp add: strchr_def key_of_record_def tw)
qed

lemma take_wcschr:
  "take (case wcschr p c of Some i \<Rightarrow> i | None \<Rightarrow> length p) p = key_of_record c p"
proof (cases "c \<in> set p")
  case True
  then show ?thesis
    by (simp add: wcschr_def key_of_record_def takeWhile_eq_take [symmetric])
next
  case False
  then have tw: "takeWhile (\<lambda>x. x \<noteq> c) p = p"
    by (intro takeWhile_eq_all_conv [THEN iffD2]) auto
  from False show ?thesis
    by (simp add: wcschr_def key_of_record_def tw)
qed

lemma Enumerate_loop_posix_eq:
  "Enumerate_loop_posix isol env =
     (case those (map (\<lambda>r. NewFromUtf8 isol (key_of_record (CHR ''='') r)) env) of
        Some ks \<Rightarrow> Returned ks
      | None \<Rightarrow> Fatal ToLocalChecked_empty)"
  by (induction env) (simp_all add: take_strchr split: option.splits)

lemma Enumerate_loop_win32_eq:
  "Enumerate_loop_win32 isol rs env_v =
     (case those (map (\<lambda>r. NewFromTwoByte isol (key_of_record L_EQ r))
                   (filter (\<lambda>r. \<not> first_is_EQ r) (takeWhile (\<lambda>r. r \<noteq> []) rs))) of
        Some ks \<Rightarrow> Returned (env_v @ ks)
      | None \<Rightarrow> Threw ERR_STRING_TOO_LONG)"
  by (induction rs arbitrary: env_v) (simp_all add: take_wcschr split: option.splits)

text \<open>
  C9 (as amended). Enumerate gives, in the order of the block, the key of each record
  it visits, the key being the text of the record before its first \<open>=\<close> and the
  entire record when it has no \<open>=\<close>; a record without separator is not skipped. On the
  byte-string platform every record is visited. On the UTF-16 platform the records
  that begin with \<open>=\<close> are skipped and the walk ends at the first empty record. The
  call fails as a whole when the host cannot make the string of a key (a fatal error on
  the byte-string platform, \<open>ERR_STRING_TOO_LONG\<close> on the UTF-16 platform).
\<close>

theorem Enumerate_keys:
  "RealEnvStore_Enumerate_posix isol env =
     (case those (map (\<lambda>r. NewFromUtf8 isol (key_of_record (CHR ''='') r)) env) of
        Some ks \<Rightarrow> Returned ks
      | None \<Rightarrow> Fatal ToLocalChecked_empty)
   \<and> RealEnvStore_Enumerate_win32 isol wenv =
     (case those (map (\<lambda>r. NewFromTwoByte isol (key_of_record L_EQ r))
                   (filter (\<lambda>r. \<not> first_is_EQ r) (takeWhile (\<lambda>r. r \<noteq> []) wenv))) of
        Some ks \<Rightarrow> Returned ks
      | None \<Rightarrow> Threw ERR_STRING_TOO_LONG)
   \<and> (CHR ''='' \<notin> set r \<longrightarrow> key_of_record (CHR ''='') r = r)
   \<and> (L_EQ \<notin> set w \<longrightarrow> key_of_record L_EQ w = w)"
proof (intro conjI impI)
  show "RealEnvStore_Enumerate_posix isol env =
     (case those (map (\<lambda>r. NewFromUtf8 isol (key_of_record (CHR ''='') r)) env) of
        Some ks \<Rightarrow> Returned ks
      | None \<Rightarrow> Fatal ToLocalChecked_empty)"
    by (simp add: RealEnvStore_Enumerate_posix_def Enumerate_loop_posix_eq)
  show "RealEnvStore_Enumerate_win32 isol wenv =
     (case those (map (\<lambda>r. NewFromTwoByte isol (key_of_record L_EQ r))
                   (filter (\<lambda>r. \<not> first_is_EQ r) (takeWhile (\<lambda>r. r \<noteq> []) wenv))) of
        Some ks \<Rightarrow> Returned ks
      | None \<Rightarrow> Threw ERR_STRING_TOO_LONG)"
    by (simp add: RealEnvStore_Enumerate_win32_def GetEnvironmentStringsW_def
        Enumerate_loop_win32_eq split: option.splits)
next
  assume "CHR ''='' \<notin> set r"
  then show "key_of_record (CHR ''='') r = r"
    unfolding key_of_record_def by (intro takeWhile_eq_all_conv [THEN iffD2]) auto
next
  assume "L_EQ \<notin> set w"
  then show "key_of_record L_EQ w = w"
    unfolding key_of_record_def by (intro takeWhile_eq_all_conv [THEN iffD2]) auto
qed

theorem Enumerate_keys_witness:
  "RealEnvStore_Enumerate_posix ascii_isolate [''A=1=2'', ''NOSEP'', ''=x'']
     = Returned [js_of_ascii ''A'', js_of_ascii ''NOSEP'', []] \<and>
   RealEnvStore_Enumerate_win32 ascii_isolate
     [js_of_ascii ''=C:=C:/dir'', js_of_ascii ''A=1=2'', js_of_ascii ''NOSEP'']
     = Returned [js_of_ascii ''A'', js_of_ascii ''NOSEP''] \<and>
   CHR ''='' \<notin> set ''NOSEP'' \<and> key_of_record (CHR ''='') ''NOSEP'' = ''NOSEP'' \<and>
   L_EQ \<notin> set (js_of_ascii ''NOSEP'') \<and>
   key_of_record L_EQ (js_of_ascii ''NOSEP'') = js_of_ascii ''NOSEP''"
proof -
  note h = Enumerate_keys [of ascii_isolate "[''A=1=2'', ''NOSEP'', ''=x'']"
      "[js_of_ascii ''=C:=C:/dir'', js_of_ascii ''A=1=2'', js_of_ascii ''NOSEP'']"
      "''NOSEP''" "js_of_ascii ''NOSEP''"]
  have n1: "CHR ''='' \<notin> set ''NOSEP''" by simp
  have n2: "L_EQ \<notin> set (js_of_ascii ''NOSEP'')" by (simp add: js_of_ascii_def)
  from h have "RealEnvStore_Enumerate_posix ascii_isolate [''A=1=2'', ''NOSEP'', ''=x'']
     = Returned [js_of_ascii ''A'', js_of_ascii ''NOSEP'', []]"
    by (simp add: ascii_eval key_of_record_def)
  moreover from h have "RealEnvStore_Enumerate_win32 ascii_isolate
     [js_of_ascii ''=C:=C:/dir'', js_of_ascii ''A=1=2'', js_of_ascii ''NOSEP'']
     = Returned [js_of_ascii ''A'', js_of_ascii ''NOSEP'']"
    by (simp add: ascii_eval key_of_record_def NewFromTwoByte_def)
  moreover from h n1 have "key_of_record (CHR ''='') ''NOSEP'' = ''NOSEP''" by blast
  moreover from h n2 have "key_of_record L_EQ (js_of_ascii ''NOSEP'') = js_of_ascii ''NOSEP''"
    by blast
  ultimately show ?thesis using n1 n2 by blast
qed

text \<open>
  C9 as stated fails on the UTF-16 platform: the record \<open>=C:=C:/dir\<close> is not split
  into a key, it is skipped.
\<close>

theorem Enumerate_keys_counterexample:
  "RealEnvStore_Enumerate_win32 ascii_isolate [js_of_ascii ''=C:=C:/dir'', js_of_ascii ''A=1'']
     = Returned [js_of_ascii ''A''] \<and>
   map (key_of_record L_EQ) [js_of_ascii ''=C:=C:/dir'', js_of_ascii ''A=1'']
     = [[], js_of_ascii ''A''] \<and>
   RealEnvStore_Enumerate_win32 ascii_isolate [js_of_ascii ''=C:=C:/dir'', js_of_ascii ''A=1'']
     \<noteq> Returned (map (key_of_record L_EQ) [js_of_ascii ''=C:=C:/dir'', js_of_ascii ''A=1''])"
  by (simp add: ascii_eval win32_eval key_of_record_def)

section \<open>The write interceptor\<close>

lemma EnvSetter_warnings:
  "warnings (snd (EnvSetter isol emit kv env property val)) =
     (if pending_deprecation env \<and> \<not> IsString val \<and> \<not> IsNumber val \<and> \<not> IsBoolean val \<and>
         emit_env_nonstring_warning env
      then (DEP0104_message, ''DEP0104'') # warnings env else warnings env)"
  by (simp add: EnvSetter_def EmitProcessEnvWarning_def ProcessEmitDeprecationWarning_def
      split: option.splits)

lemma EnvSetter_flag:
  "emit_env_nonstring_warning (snd (EnvSetter isol emit kv env property val)) =
     (emit_env_nonstring_warning env \<and>
      \<not> (pending_deprecation env \<and> \<not> IsString val \<and> \<not> IsNumber val \<and> \<not> IsBoolean val))"
  by (simp add: EnvSetter_def EmitProcessEnvWarning_def ProcessEmitDeprecationWarning_def
      split: option.splits)

lemma EnvSetter_return:
  "fst (EnvSetter isol emit kv env property val) =
     (if (pending_deprecation env \<and> \<not> IsString val \<and> \<not> IsNumber val \<and> \<not> IsBoolean val \<and>
          emit_env_nonstring_warning env \<and> emit DEP0104_message ''DEP0104'' = None)
         \<or> ToString isol property = None \<or> ToString isol val = None
      then None else Some val)"
  by (simp add: EnvSetter_def EmitProcessEnvWarning_def ProcessEmitDeprecationWarning_def
      split: option.splits)

lemma EnvSetter_envvars:
  "envvars (snd (EnvSetter isol emit kv env property val)) =
     (if fst (EnvSetter isol emit kv env property val) = None then envvars env
      else kv_Set kv (envvars env) (the (ToString isol property)) (the (ToString isol val)))"
  by (simp add: EnvSetter_def EmitProcessEnvWarning_def ProcessEmitDeprecationWarning_def
      split: option.splits)

text \<open>
  C4. Under the deprecation-pending configuration, for a value that is neither a string,
  nor a number, nor a boolean: if the write is the one on which the notification
  collaborator is called (the first such write of the calling context) and the
  collaborator signals failure, the write ends there, with no return value and the
  state of the store as it was, whatever the store is: the outcome does not mention
  \<open>kv\<close>, so Set is not called. More generally, any write that called the collaborator
  and got failure for an answer leaves the store as it was.
\<close>

theorem Write_aborts_when_notification_fails:
  "(pending_deprecation env \<and> \<not> IsString val \<and> \<not> IsNumber val \<and> \<not> IsBoolean val \<and>
    emit_env_nonstring_warning env \<and> emit DEP0104_message ''DEP0104'' = None \<longrightarrow>
      EnvSetter isol emit kv env property val =
        (None, env\<lparr>emit_env_nonstring_warning := False,
                    warnings := (DEP0104_message, ''DEP0104'') # warnings env\<rparr>)
      \<and> envvars (snd (EnvSetter isol emit kv env property val)) = envvars env)
   \<and> (warnings (snd (EnvSetter isol emit kv env property val)) \<noteq> warnings env \<and>
      emit DEP0104_message ''DEP0104'' = None \<longrightarrow>
      fst (EnvSetter isol emit kv env property val) = None
      \<and> envvars (snd (EnvSetter isol emit kv env property val)) = envvars env)"
proof (intro conjI impI)
  assume a: "pending_deprecation env \<and> \<not> IsString val \<and> \<not> IsNumber val \<and> \<not> IsBoolean val \<and>
    emit_env_nonstring_warning env \<and> emit DEP0104_message ''DEP0104'' = None"
  then show "EnvSetter isol emit kv env property val =
        (None, env\<lparr>emit_env_nonstring_warning := False,
                    warnings := (DEP0104_message, ''DEP0104'') # warnings env\<rparr>)"
    by (simp add: EnvSetter_def EmitProcessEnvWarning_def ProcessEmitDeprecationWarning_def)
  then show "envvars (snd (EnvSetter isol emit kv env property val)) = envvars env"
    by simp
next
  assume b: "warnings (snd (EnvSetter isol emit kv env property val)) \<noteq> warnings env \<and>
      emit DEP0104_message ''DEP0104'' = None"
  then have q: "pending_deprecation env \<and> \<not> IsString val \<and> \<not> IsNumber val \<and>
      \<not> IsBoolean val \<and> emit_env_nonstring_warning env"
    by (auto simp: EnvSetter_warnings split: if_splits)
  with b show r: "fst (EnvSetter isol emit kv env property val) = None"
    by (simp add: EnvSetter_return)
  then show "envvars (snd (EnvSetter isol emit kv env property val)) = envvars env"
    by (simp add: EnvSetter_envvars)
qed

text \<open>The witness runs the write on a store whose state is the number of calls of Set.\<close>

theorem Write_aborts_when_notification_fails_witness:
  "EnvSetter ascii_isolate (\<lambda>msg code. None)
     \<lparr>kv_Get = (\<lambda>s k. Returned None), kv_Set = (\<lambda>s k v. Suc s), kv_Query = (\<lambda>s k. - 1),
      kv_Delete = (\<lambda>s k. s), kv_Enumerate = (\<lambda>s. Returned [])\<rparr>
     \<lparr>pending_deprecation = True, emit_env_nonstring_warning = True,
      envvars = 0, warnings = []\<rparr>
     (JSString (js_of_ascii ''A'')) JSUndefined
   = (None, \<lparr>pending_deprecation = True, emit_env_nonstring_warning = False,
             envvars = 0, warnings = [(DEP0104_message, ''DEP0104'')]\<rparr>)"
  using Write_aborts_when_notification_fails [of
     "\<lparr>pending_deprecation = True, emit_env_nonstring_warning = True,
      envvars = 0, warnings = []\<rparr>" JSUndefined "\<lambda>msg code. None" ascii_isolate
     "\<lparr>kv_Get = (\<lambda>s k. Returned None), kv_Set = (\<lambda>s k v. Suc s), kv_Query = (\<lambda>s k. - 1),
      kv_Delete = (\<lambda>s k. s), kv_Enumerate = (\<lambda>s. Returned [])\<rparr>"
     "JSString (js_of_ascii ''A'')"]
  by simp

text \<open>
  C7 (as amended). The write interceptor sets a return value exactly when the
  deprecation notification, if it is made, does not fail and the conversions of the name
  and of the value to strings both succeed; the return value is then the original
  value, not its string form. In the other cases the interceptor returns with no
  return value set.
\<close>

theorem Write_result_value:
  "fst (EnvSetter isol emit kv env property val) =
     (if (pending_deprecation env \<and> \<not> IsString val \<and> \<not> IsNumber val \<and> \<not> IsBoolean val \<and>
          emit_env_nonstring_warning env \<and> emit DEP0104_message ''DEP0104'' = None)
         \<or> ToString isol property = None \<or> ToString isol val = None
      then None else Some val)"
  by (rule EnvSetter_return)

theorem Write_result_value_witness:
  "fst (EnvSetter ascii_isolate (\<lambda>msg code. Some True) (RealEnvStore_posix ascii_isolate)
     \<lparr>pending_deprecation = True, emit_env_nonstring_warning = True,
      envvars = [], warnings = []\<rparr>
     (JSString (js_of_ascii ''A'')) (JSNumber 5)) = Some (JSNumber 5)"
  using Write_result_value [of ascii_isolate "\<lambda>msg code. Some True" "RealEnvStore_posix ascii_isolate"
     "\<lparr>pending_deprecation = True, emit_env_nonstring_warning = True,
      envvars = [], warnings = []\<rparr>" "JSString (js_of_ascii ''A'')" "JSNumber 5"]
  by (simp add: ascii_isolate_def)

text \<open>
  C7 as stated fails: with a symbol for a name the conversion of the name fails, and with
  a failing notification the write ends early; in both cases no return value is set.
\<close>

theorem Write_result_value_counterexample:
  "fst (EnvSetter ascii_isolate (\<lambda>msg code. Some True) (RealEnvStore_posix ascii_isolate)
     \<lparr>pending_deprecation = False, emit_env_nonstring_warning = True,
      envvars = [], warnings = []\<rparr>
     (JSSymbol 0) (JSString (js_of_ascii ''x''))) \<noteq> Some (JSString (js_of_ascii ''x'')) \<and>
   fst (EnvSetter ascii_isolate (\<lambda>msg code. None) (RealEnvStore_posix ascii_isolate)
     \<lparr>pending_deprecation = True, emit_env_nonstring_warning = True,
      envvars = [], warnings = []\<rparr>
     (JSString (js_of_ascii ''A'')) JSUndefined) \<noteq> Some JSUndefined"
  by (simp add: EnvSetter_def EmitProcessEnvWarning_def ProcessEmitDeprecationWarning_def)

section \<open>The one-time deprecation notice\<close>

lemma EnvSetter_run_flag_down:
  "\<not> emit_env_nonstring_warning env \<Longrightarrow>
   warnings (EnvSetter_run isol emit kv env ws) = warnings env"
proof (induction ws arbitrary: env)
  case Nil
  then show ?case by simp
next
  case (Cons w ws)
  obtain property val where w: "w = (property, val)" by (cases w)
  let ?env' = "snd (EnvSetter isol emit kv env property val)"
  from Cons.prems have "\<not> emit_env_nonstring_warning ?env'"
    by (simp add: EnvSetter_flag)
  then have "warnings (EnvSetter_run isol emit kv ?env' ws) = warnings ?env'"
    by (rule Cons.IH)
  with Cons.prems w show ?case
    by (simp add: EnvSetter_warnings)
qed

lemma EnvSetter_run_warnings_bound:
  "length (warnings (EnvSetter_run isol emit kv env ws)) \<le>
     length (warnings env) + (if emit_env_nonstring_warning env then 1 else 0)"
proof (induction ws arbitrary: env)
  case Nil
  then show ?case by simp
next
  case (Cons w ws)
  obtain property val where w: "w = (property, val)" by (cases w)
  let ?env' = "snd (EnvSetter isol emit kv env property val)"
  have ih: "length (warnings (EnvSetter_run isol emit kv ?env' ws)) \<le>
     length (warnings ?env') + (if emit_env_nonstring_warning ?env' then 1 else 0)"
    by (rule Cons.IH)
  have "length (warnings ?env') + (if emit_env_nonstring_warning ?env' then 1 else 0) \<le>
     length (warnings env) + (if emit_env_nonstring_warning env then 1 else 0)"
    by (simp add: EnvSetter_warnings EnvSetter_flag)
  with ih w show ?case by simp
qed

lemma Get_win32_after_Set:
  assumes "valid_wname (w_str k)" and "\<not> first_is_EQ (w_str k)" and "w_str v = v"
    and "length v < arraysize_buffer" and "length v \<le> kMaxLength isol"
  shows "RealEnvStore_Get_win32 upcase isol (RealEnvStore_Set_win32 upcase isol env k v) k
    = Returned (Some v)"
proof -
  from assms(1-3)
  have "find_variable upcase (RealEnvStore_Set_win32 upcase isol env k v) (w_str k) = Some v"
    by (simp add: Set_win32_valid find_variable_set_variable)
  with assms(4,5) show ?thesis
    by (simp add: Get_win32_found)
qed

lemma EnvSetter_envvars_done:
  assumes "fst (EnvSetter isol emit kv env property val) \<noteq> None"
    and "ToString isol property = Some key" and "ToString isol val = Some value_string"
  shows "envvars (snd (EnvSetter isol emit kv env property val))
    = kv_Set kv (envvars env) key value_string"
  using assms by (auto simp: EnvSetter_envvars)

text \<open>
  C8 (as amended). In one calling context (one \<open>Environment\<close>) under the
  deprecation-pending configuration, all the writes together make at most one call to
  the notification collaborator: a run of writes adds at most one notification when the
  one-time flag of the context is still up and none when it is down; the call is made
  by the first write of a value that is neither a string, nor a number, nor a boolean,
  and that write takes the flag down, so that the second and every later such write of
  the context makes none. Each calling context of the process has a flag of its own. A
  write that is carried out (it sets its return value) hands to Set the string forms of
  the name and of the value; the value then found under the name is the string form of
  the input whenever the store accepts the name and the string form survives the way
  into the block and back (the conditions of Set followed by Get).
\<close>

theorem one_deprecation_notice:
  "length (warnings (EnvSetter_run isol emit kv env ws)) \<le>
     length (warnings env) + (if emit_env_nonstring_warning env then 1 else 0)
   \<and> (\<not> emit_env_nonstring_warning env \<longrightarrow>
        warnings (EnvSetter_run isol emit kv env ws) = warnings env)
   \<and> (pending_deprecation env \<and> \<not> IsString val \<and> \<not> IsNumber val \<and> \<not> IsBoolean val \<longrightarrow>
        \<not> emit_env_nonstring_warning (snd (EnvSetter isol emit kv env property val))
        \<and> (emit_env_nonstring_warning env \<longrightarrow>
             warnings (snd (EnvSetter isol emit kv env property val))
               = (DEP0104_message, ''DEP0104'') # warnings env))
   \<and> (fst (EnvSetter isol emit kv env property val) \<noteq> None \<longrightarrow>
        (\<exists>key value_string.
           ToString isol property = Some key \<and> ToString isol val = Some value_string \<and>
           envvars (snd (EnvSetter isol emit kv env property val))
             = kv_Set kv (envvars env) key value_string))
   \<and> (fst (EnvSetter isol emit (RealEnvStore_posix isol) penv property val) \<noteq> None \<and>
      ToString isol property = Some key \<and> ToString isol val = Some value_string \<and>
      \<not> EINVAL_name (c_str (Utf8Value isol key)) \<and>
      NewFromUtf8 isol (c_str (Utf8Value isol value_string)) = Some value_string \<longrightarrow>
        RealEnvStore_Get_posix isol
          (envvars (snd (EnvSetter isol emit (RealEnvStore_posix isol) penv property val))) key
          = Returned (Some value_string))
   \<and> (fst (EnvSetter isol emit (RealEnvStore_win32 upcase isol) wenv property val) \<noteq> None \<and>
      ToString isol property = Some key \<and> ToString isol val = Some value_string \<and>
      valid_wname (w_str key) \<and> \<not> first_is_EQ (w_str key) \<and>
      w_str value_string = value_string \<and> length value_string < arraysize_buffer \<and>
      length value_string \<le> kMaxLength isol \<longrightarrow>
        RealEnvStore_Get_win32 upcase isol
          (envvars (snd (EnvSetter isol emit (RealEnvStore_win32 upcase isol) wenv property val))) key
          = Returned (Some value_string))"
proof (intro conjI impI)
  show "length (warnings (EnvSetter_run isol emit kv env ws)) \<le>
     length (warnings env) + (if emit_env_nonstring_warning env then 1 else 0)"
    by (rule EnvSetter_run_warnings_bound)
next
  assume "\<not> emit_env_nonstring_warning env"
  then show "warnings (EnvSetter_run isol emit kv env ws) = warnings env"
    by (rule EnvSetter_run_flag_down)
next
  assume q: "pending_deprecation env \<and> \<not> IsString val \<and> \<not> IsNumber val \<and> \<not> IsBoolean val"
  then show "\<not> emit_env_nonstring_warning (snd (EnvSetter isol emit kv env property val))"
    by (simp add: EnvSetter_flag)
  assume "emit_env_nonstring_warning env"
  with q show "warnings (snd (EnvSetter isol emit kv env property val))
               = (DEP0104_message, ''DEP0104'') # warnings env"
    by (simp add: EnvSetter_warnings)
next
  assume r: "fst (EnvSetter isol emit kv env property val) \<noteq> None"
  then obtain k s where
    k: "ToString isol property = Some k" and s: "ToString isol val = Some s"
    by (auto simp: EnvSetter_return split: if_splits)
  with r have "envvars (snd (EnvSetter isol emit kv env property val))
             = kv_Set kv (envvars env) k s"
    by (rule EnvSetter_envvars_done)
  with k s show "\<exists>key value_string.
           ToString isol property = Some key \<and> ToString isol val = Some value_string \<and>
           envvars (snd (EnvSetter isol emit kv env property val))
             = kv_Set kv (envvars env) key value_string"
    by blast
next
  assume a: "fst (EnvSetter isol emit (RealEnvStore_posix isol) penv property val) \<noteq> None \<and>
      ToString isol property = Some key \<and> ToString isol val = Some value_string \<and>
      \<not> EINVAL_name (c_str (Utf8Value isol key)) \<and>
      NewFromUtf8 isol (c_str (Utf8Value isol value_string)) = Some value_string"
  then have "envvars (snd (EnvSetter isol emit (RealEnvStore_posix isol) penv property val))
      = RealEnvStore_Set_posix isol (envvars penv) key value_string"
    using EnvSetter_envvars_done [of isol emit "RealEnvStore_posix isol" penv property val
        key value_string]
    by (simp add: RealEnvStore_posix_def)
  with a show "RealEnvStore_Get_posix isol
          (envvars (snd (EnvSetter isol emit (RealEnvStore_posix isol) penv property val))) key
          = Returned (Some value_string)"
    by (simp add: Get_posix_after_Set)
next
  assume a: "fst (EnvSetter isol emit (RealEnvStore_win32 upcase isol) wenv property val) \<noteq> None \<and>
      ToString isol property = Some key \<and> ToString isol val = Some value_string \<and>
      valid_wname (w_str key) \<and> \<not> first_is_EQ (w_str key) \<and>
      w_str value_string = value_string \<and> length value_string < arraysize_buffer \<and>
      length value_string \<le> kMaxLength isol"
  then have "envvars (snd (EnvSetter isol emit (RealEnvStore_win32 upcase isol) wenv property val))
      = RealEnvStore_Set_win32 upcase isol (envvars wenv) key value_string"
    using EnvSetter_envvars_done [of isol emit "RealEnvStore_win32 upcase isol" wenv property val
        key value_string]
    by (simp add: RealEnvStore_win32_def)
  with a show "RealEnvStore_Get_win32 upcase isol
          (envvars (snd (EnvSetter isol emit (RealEnvStore_win32 upcase isol) wenv property val))) key
          = Returned (Some value_string)"
    by (simp add: Get_win32_after_Set)
qed

text \<open>Two writes of values that are not primitive, in a fresh context on the byte-string
  platform: one notification, and both values found in their string forms.\<close>

theorem one_deprecation_notice_witness:
  "length (warnings (EnvSetter_run ascii_isolate (\<lambda>msg code. Some True)
      (RealEnvStore_posix ascii_isolate)
      \<lparr>pending_deprecation = True, emit_env_nonstring_warning = True,
       envvars = [], warnings = []\<rparr>
      [(JSString (js_of_ascii ''A''), JSUndefined), (JSString (js_of_ascii ''B''), JSObject 1)]))
     \<le> 1 \<and>
   envvars (EnvSetter_run ascii_isolate (\<lambda>msg code. Some True)
      (RealEnvStore_posix ascii_isolate)
      \<lparr>pending_deprecation = True, emit_env_nonstring_warning = True,
       envvars = [], warnings = []\<rparr>
      [(JSString (js_of_ascii ''A''), JSUndefined), (JSString (js_of_ascii ''B''), JSObject 1)])
     = [''A=undefined'', ''B=[object Object]''] \<and>
   warnings (EnvSetter_run ascii_isolate (\<lambda>msg code. Some True)
      (RealEnvStore_posix ascii_isolate)
      \<lparr>pending_deprecation = True, emit_env_nonstring_warning = True,
       envvars = [], warnings = []\<rparr>
      [(JSString (js_of_ascii ''A''), JSUndefined), (JSString (js_of_ascii ''B''), JSObject 1)])
     = [(DEP0104_message, ''DEP0104'')] \<and>
   fst (EnvSetter ascii_isolate (\<lambda>msg code. Some True) (RealEnvStore_posix ascii_isolate)
      \<lparr>pending_deprecation = True, emit_env_nonstring_warning = True,
       envvars = [], warnings = []\<rparr> (JSString (js_of_ascii ''A'')) JSUndefined) \<noteq> None \<and>
   ToString ascii_isolate (JSString (js_of_ascii ''A'')) = Some (js_of_ascii ''A'') \<and>
   ToString ascii_isolate JSUndefined = Some (js_of_ascii ''undefined'') \<and>
   \<not> EINVAL_name (c_str (Utf8Value ascii_isolate (js_of_ascii ''A''))) \<and>
   NewFromUtf8 ascii_isolate (c_str (Utf8Value ascii_isolate (js_of_ascii ''undefined'')))
     = Some (js_of_ascii ''undefined'') \<and>
   RealEnvStore_Get_posix ascii_isolate
     (envvars (snd (EnvSetter ascii_isolate (\<lambda>msg code. Some True)
        (RealEnvStore_posix ascii_isolate)
        \<lparr>pending_deprecation = True, emit_env_nonstring_warning = True,
         envvars = [], warnings = []\<rparr> (JSString (js_of_ascii ''A'')) JSUndefined)))
     (js_of_ascii ''A'') = Returned (Some (js_of_ascii ''undefined''))"
proof -
  let ?env = "\<lparr>pending_deprecation = True, emit_env_nonstring_warning = True,
       envvars = ([] :: environ), warnings = []\<rparr>"
  let ?ws = "[(JSString (js_of_ascii ''A''), JSUndefined), (JSString (js_of_ascii ''B''), JSObject 1)]"
  let ?emit = "\<lambda>(msg :: string) (code :: string). Some True"
  note h = one_deprecation_notice [of ascii_isolate ?emit
      "RealEnvStore_posix ascii_isolate" ?env ?ws JSUndefined "JSString (js_of_ascii ''A'')"
      ?env "js_of_ascii ''A''" "js_of_ascii ''undefined''"]
  from h have b: "length (warnings (EnvSetter_run ascii_isolate ?emit
      (RealEnvStore_posix ascii_isolate) ?env ?ws)) \<le> 1"
    by simp
  have e: "envvars (EnvSetter_run ascii_isolate ?emit
      (RealEnvStore_posix ascii_isolate) ?env ?ws) = [''A=undefined'', ''B=[object Object]'']"
    by (simp add: EnvSetter_def EmitProcessEnvWarning_def ProcessEmitDeprecationWarning_def
        RealEnvStore_posix_def ascii_eval posix_eval)
  have w: "warnings (EnvSetter_run ascii_isolate ?emit
      (RealEnvStore_posix ascii_isolate) ?env ?ws) = [(DEP0104_message, ''DEP0104'')]"
    by (simp add: EnvSetter_warnings EnvSetter_flag)
  have c: "fst (EnvSetter ascii_isolate ?emit (RealEnvStore_posix ascii_isolate) ?env
        (JSString (js_of_ascii ''A'')) JSUndefined) \<noteq> None \<and>
      ToString ascii_isolate (JSString (js_of_ascii ''A'')) = Some (js_of_ascii ''A'') \<and>
      ToString ascii_isolate JSUndefined = Some (js_of_ascii ''undefined'') \<and>
      \<not> EINVAL_name (c_str (Utf8Value ascii_isolate (js_of_ascii ''A''))) \<and>
      NewFromUtf8 ascii_isolate (c_str (Utf8Value ascii_isolate (js_of_ascii ''undefined'')))
        = Some (js_of_ascii ''undefined'')"
    by (simp add: EnvSetter_return ascii_eval c_str_def EINVAL_name_def)
  with h have g: "RealEnvStore_Get_posix ascii_isolate
     (envvars (snd (EnvSetter ascii_isolate ?emit (RealEnvStore_posix ascii_isolate) ?env
        (JSString (js_of_ascii ''A'')) JSUndefined)))
     (js_of_ascii ''A'') = Returned (Some (js_of_ascii ''undefined''))"
    by blast
  from b e w c g show ?thesis by blast
qed

text \<open>
  C8 as stated fails. Two calling contexts of one process, each with its flag up, on
  the same block: the first write of each is notified, which makes two notifications
  in the lifetime of the process. And the value stored is not always the string form
  of the input: for the name \<open>A=B\<close> the platform refuses the write and nothing is
  found under the name afterwards; for an object whose string form has a NUL in it,
  what is found is the string form cut at the NUL.
\<close>

theorem one_deprecation_notice_counterexample:
  "warnings (snd (EnvSetter ascii_isolate (\<lambda>msg code. Some True) (RealEnvStore_posix ascii_isolate)
      \<lparr>pending_deprecation = True, emit_env_nonstring_warning = True,
       envvars = [], warnings = []\<rparr> (JSString (js_of_ascii ''A'')) JSUndefined))
     = [(DEP0104_message, ''DEP0104'')] \<and>
   envvars (snd (EnvSetter ascii_isolate (\<lambda>msg code. Some True) (RealEnvStore_posix ascii_isolate)
      \<lparr>pending_deprecation = True, emit_env_nonstring_warning = True,
       envvars = [], warnings = []\<rparr> (JSString (js_of_ascii ''A'')) JSUndefined))
     = [''A=undefined''] \<and>
   warnings (snd (EnvSetter ascii_isolate (\<lambda>msg code. Some True) (RealEnvStore_posix ascii_isolate)
      \<lparr>pending_deprecation = True, emit_env_nonstring_warning = True,
       envvars = [''A=undefined''], warnings = []\<rparr> (JSString (js_of_ascii ''B'')) (JSObject 1)))
     = [(DEP0104_message, ''DEP0104'')] \<and>
   fst (EnvSetter ascii_isolate (\<lambda>msg code. Some True) (RealEnvStore_posix ascii_isolate)
      \<lparr>pending_deprecation = True, emit_env_nonstring_warning = True,
       envvars = [], warnings = []\<rparr> (JSString (js_of_ascii ''A=B'')) JSUndefined)
     = Some JSUndefined \<and>
   RealEnvStore_Get_posix ascii_isolate
     (envvars (snd (EnvSetter ascii_isolate (\<lambda>msg code. Some True)
        (RealEnvStore_posix ascii_isolate)
        \<lparr>pending_deprecation = True, emit_env_nonstring_warning = True,
         envvars = [], warnings = []\<rparr> (JSString (js_of_ascii ''A=B'')) JSUndefined)))
     (js_of_ascii ''A=B'') = Returned None \<and>
   ToString (ascii_isolate\<lparr>ToString_other := (\<lambda>v. Some [0x61, 0, 0x62])\<rparr>) (JSObject 1)
     = Some [0x61, 0, 0x62] \<and>
   RealEnvStore_Get_posix (ascii_isolate\<lparr>ToString_other := (\<lambda>v. Some [0x61, 0, 0x62])\<rparr>)
     (envvars (snd (EnvSetter (ascii_isolate\<lparr>ToString_other := (\<lambda>v. Some [0x61, 0, 0x62])\<rparr>)
        (\<lambda>msg code. Some True)
        (RealEnvStore_posix (ascii_isolate\<lparr>ToString_other := (\<lambda>v. Some [0x61, 0, 0x62])\<rparr>))
        \<lparr>pending_deprecation = True, emit_env_nonstring_warning = True,
         envvars = [], warnings = []\<rparr> (JSString (js_of_ascii ''A'')) (JSObject 1))))
     (js_of_ascii ''A'') = Returned (Some [0x61])"
  by (simp add: EnvSetter_def EmitProcessEnvWarning_def ProcessEmitDeprecationWarning_def
      RealEnvStore_posix_def ascii_eval posix_eval)

section \<open>The read interceptor\<close>

lemma Get_posix_no_CHECK: "RealEnvStore_Get_posix isol env k \<noteq> Fatal CHECK_failed"
  by (simp add: RealEnvStore_Get_posix_def split: option.splits)

lemma Get_win32_no_CHECK: "RealEnvStore_Get_win32 upcase isol env k \<noteq> Fatal CHECK_failed"
  by (cases "find_variable upcase env (w_str k)")
     (simp_all add: Get_win32_found Get_win32_not_found)

text \<open>
  C10. The read interceptor handles a property name in two cases. For a symbol it
  returns \<open>undefined\<close>, whatever the store is, so without consulting it. For a string
  it hands the name to Get and returns what Get gives. Under the contract of the host
  that a name is a string or a symbol, the assertion that a name that is not a symbol is
  a string does not fire, on either platform; it would fire for any other value.
\<close>

theorem Read_total_on_names:
  "(IsSymbol property \<longrightarrow> EnvGetter kv env property = Returned (Some JSUndefined))
   \<and> (IsString property \<longrightarrow>
        EnvGetter kv env property =
          (case kv_Get kv (envvars env) (As_String property) of
             Returned r \<Rightarrow> Returned (map_option JSString r)
           | Threw e \<Rightarrow> Threw e
           | Fatal f \<Rightarrow> Fatal f))
   \<and> (IsString property \<or> IsSymbol property \<longrightarrow>
        EnvGetter (RealEnvStore_posix isol) penv property \<noteq> Fatal CHECK_failed \<and>
        EnvGetter (RealEnvStore_win32 upcase isol) wenv property \<noteq> Fatal CHECK_failed)
   \<and> (\<not> IsString property \<and> \<not> IsSymbol property \<longrightarrow>
        EnvGetter kv env property = Fatal CHECK_failed)"
proof (intro conjI impI)
  assume "IsSymbol property"
  then show "EnvGetter kv env property = Returned (Some JSUndefined)"
    by (simp add: EnvGetter_def)
next
  assume "IsString property"
  then show "EnvGetter kv env property =
          (case kv_Get kv (envvars env) (As_String property) of
             Returned r \<Rightarrow> Returned (map_option JSString r)
           | Threw e \<Rightarrow> Threw e
           | Fatal f \<Rightarrow> Fatal f)"
    by (cases property) (simp_all add: EnvGetter_def)
next
  assume n: "IsString property \<or> IsSymbol property"
  have p: "RealEnvStore_Get_posix isol (envvars penv) (As_String property) \<noteq> Fatal CHECK_failed"
    by (rule Get_posix_no_CHECK)
  from n p show "EnvGetter (RealEnvStore_posix isol) penv property \<noteq> Fatal CHECK_failed"
    by (auto simp: EnvGetter_def RealEnvStore_posix_def split: outcome.splits)
  have w: "RealEnvStore_Get_win32 upcase isol (envvars wenv) (As_String property) \<noteq> Fatal CHECK_failed"
    by (rule Get_win32_no_CHECK)
  from n w show "EnvGetter (RealEnvStore_win32 upcase isol) wenv property \<noteq> Fatal CHECK_failed"
    by (auto simp: EnvGetter_def RealEnvStore_win32_def split: outcome.splits)
next
  assume "\<not> IsString property \<and> \<not> IsSymbol property"
  then show "EnvGetter kv env property = Fatal CHECK_failed"
    by (simp add: EnvGetter_def)
qed

text \<open>The witness reads a symbol on a store whose Get would end the process, and a string
  on the byte-string platform.\<close>

theorem Read_total_on_names_witness:
  "IsSymbol (JSSymbol 7) \<and>
   EnvGetter
     \<lparr>kv_Get = (\<lambda>s k. Fatal ToLocalChecked_empty), kv_Set = (\<lambda>s k v. s),
      kv_Query = (\<lambda>s k. - 1), kv_Delete = (\<lambda>s k. s), kv_Enumerate = (\<lambda>s. Returned [])\<rparr>
     \<lparr>pending_deprecation = False, emit_env_nonstring_warning = True,
      envvars = (), warnings = []\<rparr> (JSSymbol 7) = Returned (Some JSUndefined) \<and>
   IsString (JSString (js_of_ascii ''FOO'')) \<and>
   EnvGetter (RealEnvStore_posix ascii_isolate)
     \<lparr>pending_deprecation = False, emit_env_nonstring_warning = True,
      envvars = [''FOO=bar''], warnings = []\<rparr> (JSString (js_of_ascii ''FOO''))
     = Returned (Some (JSString (js_of_ascii ''bar'')))"
proof -
  have s: "IsSymbol (JSSymbol 7)" and t: "IsString (JSString (js_of_ascii ''FOO''))"
    by simp_all
  from s Read_total_on_names [of "JSSymbol 7"
     "\<lparr>kv_Get = (\<lambda>s k. Fatal ToLocalChecked_empty), kv_Set = (\<lambda>s k v. s),
      kv_Query = (\<lambda>s k. - 1), kv_Delete = (\<lambda>s k. s), kv_Enumerate = (\<lambda>s. Returned [])\<rparr>"
     "\<lparr>pending_deprecation = False, emit_env_nonstring_warning = True,
      envvars = (), warnings = []\<rparr>"]
  have a: "EnvGetter
     \<lparr>kv_Get = (\<lambda>s k. Fatal ToLocalChecked_empty), kv_Set = (\<lambda>s k v. s),
      kv_Query = (\<lambda>s k. - 1), kv_Delete = (\<lambda>s k. s), kv_Enumerate = (\<lambda>s. Returned [])\<rparr>
     \<lparr>pending_deprecation = False, emit_env_nonstring_warning = True,
      envvars = (), warnings = []\<rparr> (JSSymbol 7) = Returned (Some JSUndefined)"
    by blast
  from t Read_total_on_names [of "JSString (js_of_ascii ''FOO'')"
     "RealEnvStore_posix ascii_isolate"
     "\<lparr>pending_deprecation = False, emit_env_nonstring_warning = True,
      envvars = [''FOO=bar''], warnings = []\<rparr>"]
  have "EnvGetter (RealEnvStore_posix ascii_isolate)
     \<lparr>pending_deprecation = False, emit_env_nonstring_warning = True,
      envvars = [''FOO=bar''], warnings = []\<rparr> (JSString (js_of_ascii ''FOO''))
     = (case kv_Get (RealEnvStore_posix ascii_isolate) [''FOO=bar''] (js_of_ascii ''FOO'') of
             Returned r \<Rightarrow> Returned (map_option JSString r)
           | Threw e \<Rightarrow> Threw e
           | Fatal f \<Rightarrow> Fatal f)"
    by simp
  also have "\<dots> = Returned (Some (JSString (js_of_ascii ''bar'')))"
    by (simp add: RealEnvStore_posix_def ascii_eval posix_eval)
  finally show ?thesis using s t a by blast
qed

end
